theory Spec2Isabelle
  imports Main "HOL-Library.Word"
begin

unbundle bit_operations_syntax

section \<open>Shared memory\<close>

text \<open>
  The engine's shared-memory segment is an array of bytes addressed by offsets. The
  two regions of this component are carved out of it by the engine's named-region
  primitive, which keeps an index from region names to the address and size it gave out.
\<close>

type_synonym addr = nat
type_synonym byte = "8 word"
type_synonym Size = "64 word"
type_synonym pid_t = "32 word"
type_synonym latch = nat

datatype error =
    ShmemSizeOverflow
  | OutOfSharedMemory
  | LockAlreadyHeld

record shmem =
  mem :: "addr \<Rightarrow> byte"
  ShmemIndex :: "string \<rightharpoonup> addr \<times> nat"
  free_offset :: addr
  segment_size :: nat
  AddinShmemInitLock :: bool
  bordercollieLatch :: "latch option"

text \<open>
  \<^verbatim>\<open>MemSet(start, val, len)\<close> sets \<open>len\<close> bytes from \<open>start\<close> on to \<open>val\<close>,
  whatever the region they belong to.
\<close>

definition MemSet :: "addr \<Rightarrow> byte \<Rightarrow> nat \<Rightarrow> (addr \<Rightarrow> byte) \<Rightarrow> (addr \<Rightarrow> byte)" where
  "MemSet start val len m = (\<lambda>a. if start \<le> a \<and> a < start + len then val else m a)"

text \<open>Little-endian loads and stores of a 32-bit and of a 64-bit object.\<close>

definition load32 :: "(addr \<Rightarrow> byte) \<Rightarrow> addr \<Rightarrow> 32 word" where
  "load32 m a =
     ucast (m a) OR push_bit 8 (ucast (m (a + 1))) OR
     push_bit 16 (ucast (m (a + 2))) OR push_bit 24 (ucast (m (a + 3)))"

definition store32 :: "addr \<Rightarrow> 32 word \<Rightarrow> (addr \<Rightarrow> byte) \<Rightarrow> (addr \<Rightarrow> byte)" where
  "store32 a v m =
     m(a := ucast v, a + 1 := ucast (drop_bit 8 v),
       a + 2 := ucast (drop_bit 16 v), a + 3 := ucast (drop_bit 24 v))"



text \<open>
  \<^verbatim>\<open>typedef uint64_t Flag\<close>: a flag is 8 bytes. \<^verbatim>\<open>BorderCollieShmemStruct\<close> has the
  single member \<^verbatim>\<open>pid_t border_collie_pid\<close>; \<^verbatim>\<open>pid_t\<close> comes from the system headers,
  where it is a 32-bit int, so the struct is 4 bytes and the member sits at offset 0.
\<close>

definition sizeof_Flag :: Size where
  "sizeof_Flag = 8"

definition sizeof_BorderCollieShmemStruct :: Size where
  "sizeof_BorderCollieShmemStruct = 4"

text \<open>
  Modelled from the spec: \<^verbatim>\<open>add_size\<close> (the engine's storage/shmem.c) is not among the
  sources. The sizing pass adds region sizes; the engine's helper raises an error instead
  of returning a sum that wrapped around \<^verbatim>\<open>size_t\<close>.
\<close>

definition add_size :: "Size \<Rightarrow> Size \<Rightarrow> error + Size" where
  "add_size s1 s2 =
     (let result = s1 + s2
      in if result < s1 \<or> result < s2 then Inl ShmemSizeOverflow else Inr result)"

text \<open>
  Modelled from the spec: \<^verbatim>\<open>ShmemInitStruct\<close> (storage/shmem.c) is not among the sources.
  It is the lookup/create primitive: a name already in the index is located and reported
  as found; otherwise a region of the requested size is taken from the free part of the
  segment, entered in the index and reported as not found. A region that cannot be
  created is an error.
\<close>

definition ShmemInitStruct :: "string \<Rightarrow> Size \<Rightarrow> shmem \<Rightarrow> error + (addr \<times> bool \<times> shmem)" where
  "ShmemInitStruct name sz sh =
     (case ShmemIndex sh name of
        Some (a, n) \<Rightarrow> Inr (a, True, sh)
      | None \<Rightarrow>
          if segment_size sh < free_offset sh + unat sz then Inl OutOfSharedMemory
          else Inr (free_offset sh, False,
                 sh\<lparr>ShmemIndex := (ShmemIndex sh)(name \<mapsto> (free_offset sh, unat sz)),
                    free_offset := free_offset sh + unat sz\<rparr>))"

text \<open>
  Modelled from the spec: the instance-wide exclusive initialization lock
  (\<^verbatim>\<open>LWLockAcquire(AddinShmemInitLock, LW_EXCLUSIVE)\<close>, \<^verbatim>\<open>LWLockRelease\<close>). The lock is
  not re-entrant: the source warns that \<^verbatim>\<open>BorderCollieFlagsInit\<close> must not be called
  with the lock held, because it takes the same lock.
\<close>

definition LWLockAcquire :: "shmem \<Rightarrow> error + shmem" where
  "LWLockAcquire sh =
     (if AddinShmemInitLock sh then Inl LockAlreadyHeld
      else Inr (sh\<lparr>AddinShmemInitLock := True\<rparr>))"

definition LWLockRelease :: "shmem \<Rightarrow> shmem" where
  "LWLockRelease sh = sh\<lparr>AddinShmemInitLock := False\<rparr>"

section \<open>Flag Store (access/border\_collie/border\_collie.c)\<close>

text \<open>
  The globals of border\_collie.c and of border\_collie\_process.c that the bootstrap
  touches: the capacity \<^verbatim>\<open>int NBorderCollieFlags\<close>, the two region pointers (\<open>None\<close> is
  \<^verbatim>\<open>NULL\<close>), and the shared segment itself.
\<close>

record boot =
  shm :: shmem
  NBorderCollieFlags :: "32 word"
  BorderCollieFlags :: "addr option"
  BorderCollieShmem :: "addr option"

text \<open>
  \<^verbatim>\<open>NBorderCollieFlags * sizeof(Flag)\<close>: the int is converted to \<^verbatim>\<open>size_t\<close> (sign
  extension) and the product is taken modulo \<open>2 ^ 64\<close>.
\<close>

definition flags_bytes :: "32 word \<Rightarrow> Size" where
  "flags_bytes n = scast n * sizeof_Flag"

definition BorderCollieFlagsSize :: "32 word \<Rightarrow> error + Size" where
  "BorderCollieFlagsSize n = add_size 0 (flags_bytes n)"

definition BorderCollieFlagsInit ::
  "(string \<Rightarrow> Size \<Rightarrow> shmem \<Rightarrow> error + (addr \<times> bool \<times> shmem)) \<Rightarrow> 'a boot_scheme \<Rightarrow> error + 'a boot_scheme" where
  "BorderCollieFlagsInit shmem_init_struct b =
     (case BorderCollieFlagsSize (NBorderCollieFlags b) of
        Inl e \<Rightarrow> Inl e
      | Inr sz \<Rightarrow>
     (case LWLockAcquire (shm b) of
        Inl e \<Rightarrow> Inl e
      | Inr sh1 \<Rightarrow>
     (case shmem_init_struct ''Border Collie Flags'' (flags_bytes (NBorderCollieFlags b)) sh1 of
        Inl e \<Rightarrow> Inl e
      | Inr (p, found, sh2) \<Rightarrow>
          let sh3 = (if \<not> found then sh2\<lparr>mem := MemSet p 0 (unat sz) (mem sh2)\<rparr> else sh2)
          in Inr (b\<lparr>shm := LWLockRelease sh3, BorderCollieFlags := Some p\<rparr>))))"

section \<open>Sizing and bootstrap of the Registration Record (postmaster/border\_collie\_process.c)\<close>

definition BorderCollieShmemSize :: "32 word \<Rightarrow> error + Size" where
  "BorderCollieShmemSize n =
     (case add_size 0 sizeof_BorderCollieShmemStruct of
        Inl e \<Rightarrow> Inl e
      | Inr sz \<Rightarrow>
     (case BorderCollieFlagsSize n of
        Inl e \<Rightarrow> Inl e
      | Inr fsize \<Rightarrow> add_size sz fsize))"

text \<open>
  The first half of \<^verbatim>\<open>BorderCollieShmemInit\<close>, up to the release of the lock: the region
  is requested with \<^verbatim>\<open>sizeof(BorderCollieShmemStruct)\<close>, and on first creation \<^verbatim>\<open>MemSet\<close>
  is given \<^verbatim>\<open>size\<close>, the value of \<^verbatim>\<open>BorderCollieShmemSize()\<close>.
\<close>

definition BorderCollieShmemInit_record ::
  "(string \<Rightarrow> Size \<Rightarrow> shmem \<Rightarrow> error + (addr \<times> bool \<times> shmem)) \<Rightarrow> 'a boot_scheme \<Rightarrow> error + 'a boot_scheme" where
  "BorderCollieShmemInit_record shmem_init_struct b =
     (case BorderCollieShmemSize (NBorderCollieFlags b) of
        Inl e \<Rightarrow> Inl e
      | Inr sz \<Rightarrow>
     (case LWLockAcquire (shm b) of
        Inl e \<Rightarrow> Inl e
      | Inr sh1 \<Rightarrow>
     (case shmem_init_struct ''Border Collie Data'' sizeof_BorderCollieShmemStruct sh1 of
        Inl e \<Rightarrow> Inl e
      | Inr (p, found, sh2) \<Rightarrow>
          let sh3 = (if \<not> found then sh2\<lparr>mem := MemSet p 0 (unat sz) (mem sh2)\<rparr> else sh2)
          in Inr (b\<lparr>shm := LWLockRelease sh3, BorderCollieShmem := Some p\<rparr>))))"

definition BorderCollieShmemInit ::
  "(string \<Rightarrow> Size \<Rightarrow> shmem \<Rightarrow> error + (addr \<times> bool \<times> shmem)) \<Rightarrow> 'a boot_scheme \<Rightarrow> error + 'a boot_scheme" where
  "BorderCollieShmemInit shmem_init_struct b =
     (case BorderCollieShmemInit_record shmem_init_struct b of
        Inl e \<Rightarrow> Inl e
      | Inr b1 \<Rightarrow> BorderCollieFlagsInit shmem_init_struct b1)"



text \<open>
  The accessor macros of access/border\_collie.h are not embedded: they have no run-time
  behaviour to translate. \<^verbatim>\<open>#define SetBorderCollieFlag(id, val) ( /* Your content... */ )\<close>
  expands to an empty pair of parentheses, which is no C expression, and
  \<^verbatim>\<open>#define GetBorderCollieFlag(id) (&BorderCollieFlag[(id)])\<close> names an array
  \<^verbatim>\<open>BorderCollieFlag\<close> that no file declares (the allocated array is
  \<^verbatim>\<open>BorderCollieFlags\<close>); no file uses either macro, and a use would not compile.
\<close>

section \<open>Process Controller (postmaster/border\_collie\_process.c)\<close>

datatype signal =
  SIGHUP | SIGINT | SIGTERM | SIGQUIT | SIGALRM | SIGPIPE | SIGUSR1 | SIGUSR2 | SIGCHLD | SIGSEGV

datatype sighandler =
    SignalHandlerForConfigReload
  | SignalHandlerForShutdownRequest
  | SignalHandlerForCrashExit
  | procsignal_sigusr1_handler
  | SIG_IGN
  | SIG_DFL

text \<open>
  The calls the process makes on the world outside its own variables, in program order.
  An event is recorded when the call is made, also when the call then raises an error.
\<close>

datatype event =
    E_store_border_collie_pid addr pid_t
  | E_pqsignal signal sighandler
  | E_sigdelset_BlockSig signal
  | E_AllocSetContextCreate
  | E_MemoryContextSwitchTo
  | E_EmitErrorReport
  | E_LWLockReleaseAll
  | E_ConditionVariableCancelSleep
  | E_pgstat_report_wait_end
  | E_AbortBufferIO
  | E_UnlockBuffers
  | E_ReleaseAuxProcessResources bool
  | E_AtEOXact_Buffers bool
  | E_AtEOXact_SMgr
  | E_AtEOXact_Files bool
  | E_AtEOXact_HashTables bool
  | E_FlushErrorState
  | E_MemoryContextResetAndDeleteChildren
  | E_pg_usleep int
  | E_smgrcloseall
  | E_PG_SETMASK_UnBlockSig
  | E_advertise_latch latch
  | E_ResetLatch
  | E_ProcessProcSignalBarrier
  | E_ProcessConfigFile
  | E_ereport_LOG "32 word"
  | E_WaitLatch int
  | E_proc_exit int

text \<open>
  The process state: the globals of the bootstrap, the process's own identity
  (\<^verbatim>\<open>MyProcPid\<close>, the address \<^verbatim>\<open>&MyProc->procLatch\<close>), the GUC \<^verbatim>\<open>BorderCollieDelay\<close>, the
  three pending flags that signal handlers set, the installed handlers, the local
  \<^verbatim>\<open>tick\<close>, the error-handling globals the main routine assigns, and the trace of events.
\<close>

record proc = boot +
  MyProcPid :: pid_t
  MyProc_procLatch :: latch
  BorderCollieDelay :: int
  ProcSignalBarrierPending :: bool
  ConfigReloadPending :: bool
  ShutdownRequestPending :: bool
  sig_handlers :: "signal \<Rightarrow> sighandler"
  tick :: "32 word"
  InterruptHoldoffCount :: nat
  error_context_stack_NULL :: bool
  PG_exception_stack_set :: bool
  trace :: "event list"

text \<open>
  What the environment does during one loop iteration: which of the calls that can raise
  an error (\<^verbatim>\<open>ereport(ERROR)\<close>, a jump to the \<^verbatim>\<open>sigsetjmp\<close> point) does so, which
  signals are delivered while the process waits on its latch, what delay the
  configuration file holds when it is re-read, and the value found in the non-volatile
  local \<^verbatim>\<open>tick\<close> after a jump back to the \<^verbatim>\<open>sigsetjmp\<close> point (C leaves it indeterminate).
  A signal whose handler only sets a flag has the same effect on the run whether it
  arrives during the wait or at any point after the flag's test of the same iteration, so
  delivery is modelled at the wait.
\<close>

datatype call = C_ProcessProcSignalBarrier | C_ProcessConfigFile | C_ereport_LOG | C_WaitLatch

record env =
  raises :: "call \<Rightarrow> bool"
  wait_arrivals :: "signal list"
  config_delay :: int
  tick_after_longjmp :: "32 word"

datatype outcome =
    Running proc
  | ErrorRaised proc
  | Exited int proc
  | Killed signal proc

fun state_of :: "outcome \<Rightarrow> proc" where
  "state_of (Running s) = s"
| "state_of (ErrorRaised s) = s"
| "state_of (Exited c s) = s"
| "state_of (Killed sg s) = s"

fun then_run :: "outcome \<Rightarrow> (proc \<Rightarrow> outcome) \<Rightarrow> outcome" where
  "then_run (Running s) f = f s"
| "then_run (ErrorRaised s) f = ErrorRaised s"
| "then_run (Exited c s) f = Exited c s"
| "then_run (Killed sg s) f = Killed sg s"

definition log_event :: "event \<Rightarrow> proc \<Rightarrow> proc" where
  "log_event e s = s\<lparr>trace := trace s @ [e]\<rparr>"

definition may_raise :: "env \<Rightarrow> call \<Rightarrow> proc \<Rightarrow> outcome" where
  "may_raise en c s = (if raises en c then ErrorRaised s else Running s)"

definition pqsignal :: "signal \<Rightarrow> sighandler \<Rightarrow> proc \<Rightarrow> proc" where
  "pqsignal sg h s = log_event (E_pqsignal sg h) (s\<lparr>sig_handlers := (sig_handlers s)(sg := h)\<rparr>)"

text \<open>
  Modelled from the spec: the handlers live in the engine's postmaster/interrupt.c and
  storage/ipc/procsignal.c, not among the sources. Each notification sets its flag, to be
  inspected at the next loop top; the immediate-crash request ends the process at once
  with the engine's crash status 2. Of the signals left at their default action only
  \<^verbatim>\<open>SIGCHLD\<close> is discarded by the operating system; any other kills the process.
\<close>

definition deliver :: "signal \<Rightarrow> proc \<Rightarrow> outcome" where
  "deliver sg s =
     (case sig_handlers s sg of
        SignalHandlerForConfigReload \<Rightarrow> Running (s\<lparr>ConfigReloadPending := True\<rparr>)
      | SignalHandlerForShutdownRequest \<Rightarrow> Running (s\<lparr>ShutdownRequestPending := True\<rparr>)
      | SignalHandlerForCrashExit \<Rightarrow> Exited 2 s
      | procsignal_sigusr1_handler \<Rightarrow> Running (s\<lparr>ProcSignalBarrierPending := True\<rparr>)
      | SIG_IGN \<Rightarrow> Running s
      | SIG_DFL \<Rightarrow> if sg = SIGCHLD then Running s else Killed sg s)"

fun deliver_all :: "signal list \<Rightarrow> proc \<Rightarrow> outcome" where
  "deliver_all [] s = Running s"
| "deliver_all (sg # sgs) s = then_run (deliver sg s) (deliver_all sgs)"

text \<open>
  Modelled from the spec: the engine routines the loop calls are not among the sources.
  \<^verbatim>\<open>ProcessProcSignalBarrier\<close> consumes the barrier request; \<^verbatim>\<open>ProcessConfigFile\<close> re-reads
  the configuration, of which this process uses the loop delay; \<^verbatim>\<open>proc_exit\<close> ends the
  process with the given status; \<^verbatim>\<open>ereport(LOG, ...)\<close> writes the tick line; \<^verbatim>\<open>WaitLatch\<close>
  blocks with the given timeout, during which signals are delivered.
\<close>

definition ProcessProcSignalBarrier :: "env \<Rightarrow> proc \<Rightarrow> outcome" where
  "ProcessProcSignalBarrier en s =
     may_raise en C_ProcessProcSignalBarrier
       (log_event E_ProcessProcSignalBarrier (s\<lparr>ProcSignalBarrierPending := False\<rparr>))"

definition ProcessConfigFile :: "env \<Rightarrow> proc \<Rightarrow> outcome" where
  "ProcessConfigFile en s =
     (if raises en C_ProcessConfigFile then ErrorRaised (log_event E_ProcessConfigFile s)
      else Running (log_event E_ProcessConfigFile (s\<lparr>BorderCollieDelay := config_delay en\<rparr>)))"

definition proc_exit :: "int \<Rightarrow> proc \<Rightarrow> outcome" where
  "proc_exit code s = Exited code (log_event (E_proc_exit code) s)"

definition ereport_LOG :: "env \<Rightarrow> 32 word \<Rightarrow> proc \<Rightarrow> outcome" where
  "ereport_LOG en t s = may_raise en C_ereport_LOG (log_event (E_ereport_LOG t) s)"

definition WaitLatch :: "env \<Rightarrow> int \<Rightarrow> proc \<Rightarrow> outcome" where
  "WaitLatch en timeout s =
     then_run (deliver_all (wait_arrivals en) (log_event (E_WaitLatch timeout) s))
       (may_raise en C_WaitLatch)"

definition HandleBorderCollieProcessInterrupts :: "env \<Rightarrow> proc \<Rightarrow> outcome" where
  "HandleBorderCollieProcessInterrupts en s =
     then_run
       (if ProcSignalBarrierPending s then ProcessProcSignalBarrier en s else Running s)
       (\<lambda>s1. then_run
          (if ConfigReloadPending s1
           then ProcessConfigFile en (s1\<lparr>ConfigReloadPending := False\<rparr>)
           else Running s1)
          (\<lambda>s2. if ShutdownRequestPending s2 then proc_exit 0 s2 else Running s2))"

definition BorderCollieProcessInit :: "proc \<Rightarrow> proc" where
  "BorderCollieProcessInit s = s"

text \<open>One pass through the body of \<^verbatim>\<open>for (;;)\<close>.\<close>

definition loop_iteration :: "env \<Rightarrow> proc \<Rightarrow> outcome" where
  "loop_iteration en s =
     then_run (HandleBorderCollieProcessInterrupts en (log_event E_ResetLatch s))
       (\<lambda>s1. let cur_timeout = BorderCollieDelay s1 in
          then_run (ereport_LOG en (tick s1) s1)
            (\<lambda>s2. WaitLatch en cur_timeout (s2\<lparr>tick := tick s2 + 1\<rparr>)))"

text \<open>
  The main routine up to the \<^verbatim>\<open>sigsetjmp\<close> point; \<open>a\<close> is the address held by
  \<^verbatim>\<open>BorderCollieShmem\<close>.
\<close>

definition startup :: "addr \<Rightarrow> proc \<Rightarrow> proc" where
  "startup a s =
     (let s = s\<lparr>tick := 0\<rparr>;
          s = log_event (E_store_border_collie_pid a (MyProcPid s))
                (s\<lparr>shm := (shm s)\<lparr>mem := store32 a (MyProcPid s) (mem (shm s))\<rparr>\<rparr>);
          s = pqsignal SIGHUP SignalHandlerForConfigReload s;
          s = pqsignal SIGINT SignalHandlerForShutdownRequest s;
          s = pqsignal SIGTERM SignalHandlerForShutdownRequest s;
          s = pqsignal SIGQUIT SignalHandlerForCrashExit s;
          s = pqsignal SIGALRM SIG_IGN s;
          s = pqsignal SIGPIPE SIG_IGN s;
          s = pqsignal SIGUSR1 procsignal_sigusr1_handler s;
          s = pqsignal SIGUSR2 SIG_IGN s;
          s = pqsignal SIGCHLD SIG_DFL s;
          s = log_event (E_sigdelset_BlockSig SIGQUIT) s;
          s = log_event E_AllocSetContextCreate s;
          s = log_event E_MemoryContextSwitchTo s
      in s)"

text \<open>The block entered when \<^verbatim>\<open>sigsetjmp\<close> returns non-zero, that is after an error.\<close>

definition error_recovery :: "proc \<Rightarrow> proc" where
  "error_recovery s =
     (let s = s\<lparr>error_context_stack_NULL := True\<rparr>;
          s = s\<lparr>InterruptHoldoffCount := InterruptHoldoffCount s + 1\<rparr>;
          s = log_event E_EmitErrorReport s;
          s = log_event E_LWLockReleaseAll s;
          s = log_event E_ConditionVariableCancelSleep s;
          s = log_event E_pgstat_report_wait_end s;
          s = log_event E_AbortBufferIO s;
          s = log_event E_UnlockBuffers s;
          s = log_event (E_ReleaseAuxProcessResources False) s;
          s = log_event (E_AtEOXact_Buffers False) s;
          s = log_event E_AtEOXact_SMgr s;
          s = log_event (E_AtEOXact_Files False) s;
          s = log_event (E_AtEOXact_HashTables False) s;
          s = log_event E_MemoryContextSwitchTo s;
          s = log_event E_FlushErrorState s;
          s = log_event E_MemoryContextResetAndDeleteChildren s;
          s = s\<lparr>InterruptHoldoffCount := InterruptHoldoffCount s - 1\<rparr>;
          s = log_event (E_pg_usleep 1000000) s;
          s = log_event E_smgrcloseall s
      in s)"

text \<open>From the end of the recovery block to the loop.\<close>

definition enter_loop :: "proc \<Rightarrow> proc" where
  "enter_loop s =
     (let s = s\<lparr>PG_exception_stack_set := True\<rparr>;
          s = log_event E_PG_SETMASK_UnBlockSig s;
          s = log_event (E_advertise_latch (MyProc_procLatch s))
                (s\<lparr>shm := (shm s)\<lparr>bordercollieLatch := Some (MyProc_procLatch s)\<rparr>\<rparr>);
          s = BorderCollieProcessInit s
      in s)"

definition siglongjmp :: "env \<Rightarrow> proc \<Rightarrow> proc" where
  "siglongjmp en s = s\<lparr>tick := tick_after_longjmp en\<rparr>"

text \<open>
  The loop never ends by itself. A run is driven by a script with one entry per
  iteration; when the script is used up the process is still running, at the loop top.
\<close>

fun main_loop :: "env list \<Rightarrow> proc \<Rightarrow> outcome" where
  "main_loop [] s = Running s"
| "main_loop (en # ens) s =
     (case loop_iteration en s of
        Running s' \<Rightarrow> main_loop ens s'
      | ErrorRaised s' \<Rightarrow> main_loop ens (enter_loop (error_recovery (siglongjmp en s')))
      | Exited c s' \<Rightarrow> Exited c s'
      | Killed sg s' \<Rightarrow> Killed sg s')"

definition BorderCollieProcessMain :: "env list \<Rightarrow> proc \<Rightarrow> outcome" where
  "BorderCollieProcessMain ens s =
     (case BorderCollieShmem s of
        None \<Rightarrow> Killed SIGSEGV s
      | Some a \<Rightarrow> main_loop ens (enter_loop (startup a s)))"

text \<open>The events a step added to the trace.\<close>

definition new_events :: "proc \<Rightarrow> proc \<Rightarrow> event list" where
  "new_events s s' = drop (length (trace s)) (trace s')"

section \<open>Reading the shared structures\<close>

text \<open>
  The bytes of the Registration Record, the region \<^verbatim>\<open>BorderCollieShmem\<close> points to, and its
  only member \<^verbatim>\<open>border_collie_pid\<close>, at offset 0.
\<close>

definition registration_record :: "'a boot_scheme \<Rightarrow> byte list option" where
  "registration_record b =
     (case BorderCollieShmem b of
        None \<Rightarrow> None
      | Some a \<Rightarrow> Some (map (mem (shm b)) [a ..< a + unat sizeof_BorderCollieShmemStruct]))"

definition border_collie_pid :: "'a boot_scheme \<Rightarrow> pid_t option" where
  "border_collie_pid b =
     (case BorderCollieShmem b of None \<Rightarrow> None | Some a \<Rightarrow> Some (load32 (mem (shm b)) a))"


section \<open>Example states\<close>

text \<open>
  A freshly mapped segment of 4096 bytes holding garbage (every byte \<open>0xFF\<close>) with an
  empty index, and the engine's first process on it with capacity 8.
\<close>

definition fresh_segment :: shmem where
  "fresh_segment =
     \<lparr>mem = (\<lambda>a. 255), ShmemIndex = Map.empty, free_offset = 0, segment_size = 4096,
      AddinShmemInitLock = False, bordercollieLatch = None\<rparr>"

definition postmaster_boot :: boot where
  "postmaster_boot =
     \<lparr>shm = fresh_segment, NBorderCollieFlags = 8, BorderCollieFlags = None,
      BorderCollieShmem = None\<rparr>"

text \<open>
  The segment after the bootstrap, and a Controller process forked on it: pid 4711, its
  latch at address 100, the default delay, no request pending, every signal at its default
  action.
\<close>

definition booted_segment :: shmem where
  "booted_segment =
     \<lparr>mem = MemSet 0 0 68 (\<lambda>a. 255),
      ShmemIndex = [''Border Collie Data'' \<mapsto> (0, 4), ''Border Collie Flags'' \<mapsto> (4, 64)],
      free_offset = 68, segment_size = 4096,
      AddinShmemInitLock = False, bordercollieLatch = None\<rparr>"

definition controller :: proc where
  "controller =
     \<lparr>shm = booted_segment, NBorderCollieFlags = 8, BorderCollieFlags = Some 4,
      BorderCollieShmem = Some 0,
      MyProcPid = 4711, MyProc_procLatch = 100, BorderCollieDelay = 1000,
      ProcSignalBarrierPending = False, ConfigReloadPending = False,
      ShutdownRequestPending = False, sig_handlers = (\<lambda>sg. SIG_DFL), tick = 0,
      InterruptHoldoffCount = 0, error_context_stack_NULL = True,
      PG_exception_stack_set = False, trace = []\<rparr>"

text \<open>An iteration in which nothing is raised and no signal arrives; the file says 50 ms.\<close>

definition quiet :: env where
  "quiet = \<lparr>raises = (\<lambda>c. False), wait_arrivals = [], config_delay = 50, tick_after_longjmp = 0\<rparr>"

text \<open>
  The Controller once it has started and stands at the loop top; an iteration whose wait
  is interrupted by a \<^verbatim>\<open>SIGTERM\<close> and then raises an error; and an iteration in which the
  re-read of the configuration raises an error.
\<close>

definition started :: proc where
  "started = enter_loop (startup 0 controller)"

definition wait_raises_after_SIGTERM :: env where
  "wait_raises_after_SIGTERM =
     \<lparr>raises = (\<lambda>c. c = C_WaitLatch), wait_arrivals = [SIGTERM], config_delay = 50,
      tick_after_longjmp = 0\<rparr>"


section \<open>Sizes\<close>

lemma add_size_zero: "add_size 0 s = Inr s"
  by (simp add: add_size_def Let_def)

lemma unat_scast_nonneg:
  assumes "0 \<le> sint (n :: 32 word)"
  shows "unat (scast n :: 64 word) = nat (sint n)" and "nat (sint n) < 2 ^ 31"
proof -
  have lt: "sint n < 2 ^ 31"
    using sint_lt [of n] by simp
  have "(scast n :: 64 word) = word_of_int (sint n)"
    by (rule scast_eq)
  also have "\<dots> = word_of_nat (nat (sint n))"
    using assms by (rule word_of_int_nat)
  finally have eq: "(scast n :: 64 word) = word_of_nat (nat (sint n))" .
  show small: "nat (sint n) < 2 ^ 31"
    using assms lt by (simp add: nat_less_iff)
  also have "(2 :: nat) ^ 31 \<le> 2 ^ LENGTH(64)"
    by (rule power_increasing) simp_all
  finally have "nat (sint n) mod 2 ^ LENGTH(64) = nat (sint n)"
    by (rule mod_less)
  then show "unat (scast n :: 64 word) = nat (sint n)"
    unfolding eq by (simp only: unat_of_nat)
qed

lemma unat_flags_bytes:
  assumes "0 \<le> sint n"
  shows "unat (flags_bytes n) = nat (sint n) * 8"
proof -
  have "unat (scast n :: 64 word) * unat (8 :: 64 word) = nat (sint n) * 8"
    using unat_scast_nonneg(1) [OF assms] by simp
  moreover have "nat (sint n) * 8 < 2 ^ 31 * 2 ^ 3"
    using unat_scast_nonneg(2) [OF assms] by simp
  moreover have "(2 :: nat) ^ 31 * 2 ^ 3 \<le> 2 ^ LENGTH(64)"
    unfolding power_add [symmetric] by (rule power_increasing) simp_all
  ultimately have "unat (scast n :: 64 word) * unat (8 :: 64 word) < 2 ^ LENGTH(64)"
    by (simp only: less_le_trans)
  then have "unat ((scast n :: 64 word) * 8) = unat (scast n :: 64 word) * unat (8 :: 64 word)"
    by (rule unat_mult_lem [THEN iffD1])
  then show ?thesis
    using unat_scast_nonneg(1) [OF assms] by (simp add: flags_bytes_def sizeof_Flag_def)
qed

lemma flags_bytes_small:
  assumes "0 \<le> sint n"
  shows "unat (flags_bytes n) < 2 ^ 34"
proof -
  have "nat (sint n) * 8 < 2 ^ 31 * 2 ^ 3"
    using unat_scast_nonneg(2) [OF assms] by simp
  then show ?thesis
    unfolding unat_flags_bytes [OF assms] by simp
qed

lemma add_size_record:
  assumes "unat s < 2 ^ 34"
  shows "add_size sizeof_BorderCollieShmemStruct s = Inr (sizeof_BorderCollieShmemStruct + s)"
    and "unat (sizeof_BorderCollieShmemStruct + s) = 4 + unat s"
proof -
  have "unat (4 :: 64 word) + unat s < 4 + 2 ^ 34"
    using assms by simp
  also have "(4 :: nat) + 2 ^ 34 \<le> 2 ^ 35"
    by simp
  also have "(2 :: nat) ^ 35 \<le> 2 ^ LENGTH(64)"
    by (rule power_increasing) simp_all
  finally have "unat (4 + s) = unat (4 :: 64 word) + unat s"
    by (rule unat_add_lem [THEN iffD1])
  then show sum: "unat (sizeof_BorderCollieShmemStruct + s) = 4 + unat s"
    by (simp add: sizeof_BorderCollieShmemStruct_def)
  have "\<not> sizeof_BorderCollieShmemStruct + s < sizeof_BorderCollieShmemStruct"
    and "\<not> sizeof_BorderCollieShmemStruct + s < s"
    unfolding word_less_nat_alt sum by (simp_all add: sizeof_BorderCollieShmemStruct_def)
  then show "add_size sizeof_BorderCollieShmemStruct s = Inr (sizeof_BorderCollieShmemStruct + s)"
    by (simp add: add_size_def Let_def)
qed

lemma BorderCollieFlagsSize_eq: "BorderCollieFlagsSize n = Inr (flags_bytes n)"
  by (simp add: BorderCollieFlagsSize_def add_size_zero)

lemma BorderCollieShmemSize_eq:
  assumes "0 \<le> sint n"
  shows "BorderCollieShmemSize n = Inr (sizeof_BorderCollieShmemStruct + flags_bytes n)"
  by (simp add: BorderCollieShmemSize_def BorderCollieFlagsSize_eq add_size_zero
      add_size_record(1) [OF flags_bytes_small [OF assms]])

text \<open>
  C7. For every capacity \<open>N \<ge> 0\<close> (an \<^verbatim>\<open>int\<close>), \<^verbatim>\<open>BorderCollieFlagsSize()\<close> returns
  exactly \<open>N * sizeof(Flag)\<close> bytes, and \<^verbatim>\<open>BorderCollieShmemSize()\<close>, the component's
  whole contribution to the sizing pass, returns
  \<open>sizeof(BorderCollieShmemStruct) + N * sizeof(Flag)\<close>: neither call raises the overflow
  error and nothing is added for padding.
\<close>

theorem sizes_exact:
  assumes "0 \<le> sint n"
  shows "\<exists>fs tot. BorderCollieFlagsSize n = Inr fs \<and>
           unat fs = nat (sint n) * unat sizeof_Flag \<and>
           BorderCollieShmemSize n = Inr tot \<and>
           unat tot = unat sizeof_BorderCollieShmemStruct + nat (sint n) * unat sizeof_Flag"
proof -
  have "unat sizeof_Flag = 8" "unat sizeof_BorderCollieShmemStruct = 4"
    by (simp_all add: sizeof_Flag_def sizeof_BorderCollieShmemStruct_def)
  then show ?thesis
    using unat_flags_bytes [OF assms] add_size_record(2) [OF flags_bytes_small [OF assms]]
    by (simp add: BorderCollieFlagsSize_eq BorderCollieShmemSize_eq [OF assms])
qed

theorem sizes_exact_witness:
  "0 \<le> sint (8 :: 32 word) \<and>
   (\<exists>fs tot. BorderCollieFlagsSize 8 = Inr fs \<and> unat fs = 64 \<and>
      BorderCollieShmemSize 8 = Inr tot \<and> unat tot = 68)"
  using sizes_exact [of 8] by (simp add: sizeof_Flag_def sizeof_BorderCollieShmemStruct_def)

section \<open>Flag Store bootstrap\<close>





lemma flags_bytes_8: "unat (flags_bytes 8) = 64"
  by (simp add: flags_bytes_def sizeof_Flag_def)

lemmas boot_example_defs =
  postmaster_boot_def fresh_segment_def flags_bytes_8



section \<open>Registration Record bootstrap\<close>

lemma BorderCollieShmemInit_record_found:
  assumes "\<not> AddinShmemInitLock (shm b)" and "0 \<le> sint (NBorderCollieFlags b)"
    and "prim ''Border Collie Data'' sizeof_BorderCollieShmemStruct
           ((shm b)\<lparr>AddinShmemInitLock := True\<rparr>) = Inr (p, found, sh2)"
  shows "BorderCollieShmemInit_record prim b =
           Inr (b\<lparr>shm := LWLockRelease
                   (if found then sh2
                    else sh2\<lparr>mem := MemSet p 0 (4 + nat (sint (NBorderCollieFlags b)) * 8) (mem sh2)\<rparr>),
                 BorderCollieShmem := Some p\<rparr>)"
  using assms add_size_record(2) [OF flags_bytes_small [OF assms(2)]]
  by (simp add: BorderCollieShmemInit_record_def BorderCollieShmemSize_eq LWLockAcquire_def
      unat_flags_bytes)

lemma load32_MemSet_zero:
  assumes "start \<le> a" "a + 4 \<le> start + len"
  shows "load32 (MemSet start 0 len m) a = 0"
  using assms by (simp add: load32_def MemSet_def)

lemma flags_bytes_32: "unat (flags_bytes 32) = 256"
  by (simp add: flags_bytes_def sizeof_Flag_def)

text \<open>
  C10, evaluated on the code. On a fresh segment with capacity 32 the Registration Record
  is the 4 bytes at offsets 0 to 3, the size given to the allocator. The zero-fill of
  \<^verbatim>\<open>BorderCollieShmemInit\<close> is given \<^verbatim>\<open>BorderCollieShmemSize()\<close>, 260 bytes, as its length:
  the bytes at offsets 4 to 259, outside the region, held \<open>0xFF\<close> before and hold 0 after.
\<close>

theorem shmem_init_zero_fill_overruns_record:
  "\<exists>b1. BorderCollieShmemInit_record ShmemInitStruct (postmaster_boot\<lparr>NBorderCollieFlags := 32\<rparr>)
          = Inr b1 \<and>
     BorderCollieShmem b1 = Some 0 \<and>
     ShmemIndex (shm b1) ''Border Collie Data'' = Some (0, 4) \<and>
     mem (shm postmaster_boot) 4 = 255 \<and> mem (shm b1) 4 = 0 \<and>
     mem (shm postmaster_boot) 259 = 255 \<and> mem (shm b1) 259 = 0 \<and>
     mem (shm b1) 260 = 255"
proof -
  let ?b = "postmaster_boot\<lparr>NBorderCollieFlags := 32\<rparr>"
  have "\<not> AddinShmemInitLock (shm ?b)"
    and "0 \<le> sint (NBorderCollieFlags ?b)"
    by (simp_all add: boot_example_defs)
  moreover have "ShmemInitStruct ''Border Collie Data'' sizeof_BorderCollieShmemStruct
      ((shm ?b)\<lparr>AddinShmemInitLock := True\<rparr>) =
      Inr (0, False, fresh_segment\<lparr>AddinShmemInitLock := True,
        ShmemIndex := [''Border Collie Data'' \<mapsto> (0, 4)], free_offset := 4\<rparr>)"
    by (simp add: ShmemInitStruct_def boot_example_defs sizeof_BorderCollieShmemStruct_def)
  ultimately show ?thesis
    by (simp add: BorderCollieShmemInit_record_found [where prim = ShmemInitStruct])
       (simp add: boot_example_defs LWLockRelease_def MemSet_def)
qed

section \<open>The Controller's startup\<close>

lemma load32_store32: "load32 (store32 a v m) a = v"
proof -
  have *: "24 + (n - 24) = n" if "\<not> n < 24" for n :: nat
    using that by simp
  show ?thesis
    apply (simp add: load32_def store32_def)
    apply (rule bit_word_eqI)
    subgoal for n
      apply (cases "n < 8"; cases "n < 16"; cases "n < 24")
             apply (auto simp add: bit_simps *)
      done
    done
qed

lemma trace_log_event [simp]: "trace (log_event e s) = trace s @ [e]"
  by (simp add: log_event_def)

lemma shm_log_event [simp]: "shm (log_event e s) = shm s"
  by (simp add: log_event_def)

lemma BorderCollieShmem_log_event [simp]: "BorderCollieShmem (log_event e s) = BorderCollieShmem s"
  by (simp add: log_event_def)

lemma shm_pqsignal [simp]: "shm (pqsignal sg h s) = shm s"
  by (simp add: pqsignal_def)

lemma BorderCollieShmem_pqsignal [simp]: "BorderCollieShmem (pqsignal sg h s) = BorderCollieShmem s"
  by (simp add: pqsignal_def)

lemma trace_pqsignal [simp]: "trace (pqsignal sg h s) = trace s @ [E_pqsignal sg h]"
  by (simp add: pqsignal_def)

lemma shm_startup: "shm (startup a s) = (shm s)\<lparr>mem := store32 a (MyProcPid s) (mem (shm s))\<rparr>"
  by (simp add: startup_def Let_def)

lemma BorderCollieShmem_startup: "BorderCollieShmem (startup a s) = BorderCollieShmem s"
  by (simp add: startup_def Let_def)

lemma trace_startup:
  "trace (startup a s) = trace s @
     [E_store_border_collie_pid a (MyProcPid s),
      E_pqsignal SIGHUP SignalHandlerForConfigReload,
      E_pqsignal SIGINT SignalHandlerForShutdownRequest,
      E_pqsignal SIGTERM SignalHandlerForShutdownRequest,
      E_pqsignal SIGQUIT SignalHandlerForCrashExit,
      E_pqsignal SIGALRM SIG_IGN,
      E_pqsignal SIGPIPE SIG_IGN,
      E_pqsignal SIGUSR1 procsignal_sigusr1_handler,
      E_pqsignal SIGUSR2 SIG_IGN,
      E_pqsignal SIGCHLD SIG_DFL,
      E_sigdelset_BlockSig SIGQUIT, E_AllocSetContextCreate, E_MemoryContextSwitchTo]"
  by (simp add: startup_def Let_def)

lemma MyProc_procLatch_startup: "MyProc_procLatch (startup a s) = MyProc_procLatch s"
  by (simp add: startup_def Let_def pqsignal_def log_event_def)

lemma shm_enter_loop:
  "shm (enter_loop s) = (shm s)\<lparr>bordercollieLatch := Some (MyProc_procLatch s)\<rparr>"
  by (simp add: enter_loop_def Let_def BorderCollieProcessInit_def log_event_def)

lemma BorderCollieShmem_enter_loop: "BorderCollieShmem (enter_loop s) = BorderCollieShmem s"
  by (simp add: enter_loop_def Let_def BorderCollieProcessInit_def)

lemma trace_enter_loop:
  "trace (enter_loop s) = trace s @ [E_PG_SETMASK_UnBlockSig, E_advertise_latch (MyProc_procLatch s)]"
  by (simp add: enter_loop_def Let_def BorderCollieProcessInit_def log_event_def)

lemma Main_empty_script:
  assumes "BorderCollieShmem s = Some a"
  shows "BorderCollieProcessMain [] s = Running (enter_loop (startup a s))"
  using assms by (simp add: BorderCollieProcessMain_def)

text \<open>
  C9, as the code has it. The Registration Record is the 4 bytes of its one member,
  \<^verbatim>\<open>border_collie_pid\<close>: 0 from the first-time creation of the region, and the
  Controller's own pid once the Controller has started. The latch handle is not in the
  record: the Controller publishes it in the engine's process header
  (\<^verbatim>\<open>ProcGlobal->bordercollieLatch\<close>), and publishing it leaves the record as it was.
\<close>

theorem registration_record_holds_pid_only:
  assumes "BorderCollieShmem s = Some a"
    and "\<not> AddinShmemInitLock (shm b)" and "0 \<le> sint (NBorderCollieFlags b)"
    and "prim ''Border Collie Data'' sizeof_BorderCollieShmemStruct
           ((shm b)\<lparr>AddinShmemInitLock := True\<rparr>) = Inr (p, False, sh2)"
  shows "(\<exists>b1. BorderCollieShmemInit_record prim b = Inr b1 \<and> border_collie_pid b1 = Some 0) \<and>
         border_collie_pid (state_of (BorderCollieProcessMain [] s)) = Some (MyProcPid s) \<and>
         map_option length (registration_record (state_of (BorderCollieProcessMain [] s))) = Some 4 \<and>
         bordercollieLatch (shm (state_of (BorderCollieProcessMain [] s))) = Some (MyProc_procLatch s) \<and>
         registration_record (enter_loop (startup a s)) = registration_record (startup a s)"
proof -
  have "\<exists>b1. BorderCollieShmemInit_record prim b = Inr b1 \<and> border_collie_pid b1 = Some 0"
    using BorderCollieShmemInit_record_found [where prim = prim, OF assms(2-4)]
    by (simp add: border_collie_pid_def LWLockRelease_def load32_MemSet_zero)
  moreover have "border_collie_pid (enter_loop (startup a s)) = Some (MyProcPid s)"
    using assms(1)
    by (simp add: border_collie_pid_def BorderCollieShmem_enter_loop BorderCollieShmem_startup
        shm_enter_loop shm_startup load32_store32)
  moreover have "map_option length (registration_record (enter_loop (startup a s))) = Some 4"
    using assms(1)
    by (simp add: registration_record_def BorderCollieShmem_enter_loop BorderCollieShmem_startup
        sizeof_BorderCollieShmemStruct_def)
  moreover have "bordercollieLatch (shm (enter_loop (startup a s))) = Some (MyProc_procLatch s)"
    by (simp add: shm_enter_loop MyProc_procLatch_startup)
  moreover have "registration_record (enter_loop (startup a s)) = registration_record (startup a s)"
    by (simp add: registration_record_def BorderCollieShmem_enter_loop shm_enter_loop
        split: option.split)
  ultimately show ?thesis
    by (simp add: Main_empty_script [OF assms(1)])
qed

theorem registration_record_holds_pid_only_witness:
  "(\<exists>b1. BorderCollieShmemInit_record ShmemInitStruct postmaster_boot = Inr b1 \<and>
      border_collie_pid b1 = Some 0) \<and>
   border_collie_pid (state_of (BorderCollieProcessMain [] controller)) = Some 4711 \<and>
   bordercollieLatch (shm (state_of (BorderCollieProcessMain [] controller))) = Some 100"
proof -
  have "BorderCollieShmem controller = Some 0"
    by (simp add: controller_def)
  moreover have "\<not> AddinShmemInitLock (shm postmaster_boot)"
    and "0 \<le> sint (NBorderCollieFlags postmaster_boot)"
    by (simp_all add: boot_example_defs)
  moreover have "ShmemInitStruct ''Border Collie Data'' sizeof_BorderCollieShmemStruct
      ((shm postmaster_boot)\<lparr>AddinShmemInitLock := True\<rparr>) =
      Inr (0, False, fresh_segment\<lparr>AddinShmemInitLock := True,
        ShmemIndex := [''Border Collie Data'' \<mapsto> (0, 4)], free_offset := 4\<rparr>)"
    by (simp add: ShmemInitStruct_def boot_example_defs sizeof_BorderCollieShmemStruct_def)
  ultimately show ?thesis
    using registration_record_holds_pid_only
      [where prim = ShmemInitStruct and s = controller and b = postmaster_boot]
    by (simp add: controller_def)
qed

text \<open>
  C9 as stated fails: two Controllers that differ only in their latch leave the same
  bytes in the Registration Record and publish different latch handles, so the record does
  not hold the handle.
\<close>

theorem registration_record_lacks_latch:
  "registration_record (state_of (BorderCollieProcessMain [] controller)) =
     registration_record
       (state_of (BorderCollieProcessMain [] (controller\<lparr>MyProc_procLatch := 200\<rparr>))) \<and>
   bordercollieLatch (shm (state_of (BorderCollieProcessMain [] controller))) = Some 100 \<and>
   bordercollieLatch
     (shm (state_of (BorderCollieProcessMain [] (controller\<lparr>MyProc_procLatch := 200\<rparr>)))) = Some 200"
proof -
  have "BorderCollieShmem controller = Some 0"
    and "BorderCollieShmem (controller\<lparr>MyProc_procLatch := 200\<rparr>) = Some 0"
    by (simp_all add: controller_def)
  then show ?thesis
    by (simp add: Main_empty_script registration_record_def BorderCollieShmem_enter_loop
        BorderCollieShmem_startup shm_enter_loop shm_startup MyProc_procLatch_startup)
       (simp add: controller_def)
qed

section \<open>The loop\<close>

lemma log_event_fields [simp]:
  "tick (log_event e s) = tick s"
  "BorderCollieDelay (log_event e s) = BorderCollieDelay s"
  "ProcSignalBarrierPending (log_event e s) = ProcSignalBarrierPending s"
  "ConfigReloadPending (log_event e s) = ConfigReloadPending s"
  "ShutdownRequestPending (log_event e s) = ShutdownRequestPending s"
  "sig_handlers (log_event e s) = sig_handlers s"
  "MyProc_procLatch (log_event e s) = MyProc_procLatch s"
  "InterruptHoldoffCount (log_event e s) = InterruptHoldoffCount s"
  by (simp_all add: log_event_def)

lemmas drain_defs =
  HandleBorderCollieProcessInterrupts_def ProcessProcSignalBarrier_def ProcessConfigFile_def
  proc_exit_def may_raise_def log_event_def

subsection \<open>Signals delivered during the wait\<close>

lemma deliver_frame:
  "trace (state_of (deliver sg s)) = trace s \<and>
   tick (state_of (deliver sg s)) = tick s \<and>
   BorderCollieDelay (state_of (deliver sg s)) = BorderCollieDelay s"
  by (simp add: deliver_def split: sighandler.split)

lemma deliver_all_frame:
  "trace (state_of (deliver_all sgs s)) = trace s \<and>
   tick (state_of (deliver_all sgs s)) = tick s \<and>
   BorderCollieDelay (state_of (deliver_all sgs s)) = BorderCollieDelay s"
proof (induction sgs arbitrary: s)
  case Nil
  show ?case by simp
next
  case (Cons sg sgs)
  show ?case
  proof (cases "deliver sg s")
    case (Running s1)
    with deliver_frame [of sg s] Cons.IH [of s1] show ?thesis
      by simp
  next
    case (ErrorRaised s1)
    with deliver_frame [of sg s] show ?thesis by simp
  next
    case (Exited c s1)
    with deliver_frame [of sg s] show ?thesis by simp
  next
    case (Killed k s1)
    with deliver_frame [of sg s] show ?thesis by simp
  qed
qed

lemma deliver_keeps:
  assumes "deliver sg s = Running s'"
  shows "sig_handlers s' = sig_handlers s"
    and "ConfigReloadPending s \<Longrightarrow> ConfigReloadPending s'"
    and "ShutdownRequestPending s \<Longrightarrow> ShutdownRequestPending s'"
    and "sig_handlers s sg = SignalHandlerForConfigReload \<Longrightarrow> ConfigReloadPending s'"
    and "sig_handlers s sg = SignalHandlerForShutdownRequest \<Longrightarrow> ShutdownRequestPending s'"
  using assms by (auto simp add: deliver_def split: sighandler.splits if_splits)

lemma deliver_all_keeps:
  assumes "deliver_all sgs s = Running s'"
  shows "sig_handlers s' = sig_handlers s \<and>
         (ConfigReloadPending s \<longrightarrow> ConfigReloadPending s') \<and>
         (ShutdownRequestPending s \<longrightarrow> ShutdownRequestPending s')"
  using assms
proof (induction sgs arbitrary: s)
  case Nil
  then show ?case by simp
next
  case (Cons sg sgs)
  from Cons.prems obtain s1
    where d: "deliver sg s = Running s1" and rest: "deliver_all sgs s1 = Running s'"
    by (cases "deliver sg s") simp_all
  from Cons.IH [OF rest] deliver_keeps(1-3) [OF d] show ?case
    by simp
qed

lemma deliver_all_sets_flag:
  assumes "deliver_all sgs s = Running s'" and "sg \<in> set sgs"
  shows "(sig_handlers s sg = SignalHandlerForConfigReload \<longrightarrow> ConfigReloadPending s') \<and>
         (sig_handlers s sg = SignalHandlerForShutdownRequest \<longrightarrow> ShutdownRequestPending s')"
  using assms
proof (induction sgs arbitrary: s)
  case Nil
  then show ?case by simp
next
  case (Cons x sgs)
  from Cons.prems(1) obtain s1
    where d: "deliver x s = Running s1" and rest: "deliver_all sgs s1 = Running s'"
    by (cases "deliver x s") simp_all
  show ?case
  proof (cases "sg = x")
    case True
    with deliver_keeps(4,5) [OF d] deliver_all_keeps [OF rest] show ?thesis
      by blast
  next
    case False
    with Cons.prems(2) have "sg \<in> set sgs"
      by simp
    from Cons.IH [OF rest this] deliver_keeps(1) [OF d] show ?thesis
      by simp
  qed
qed

lemma WaitLatch_frame:
  "trace (state_of (WaitLatch en d s)) = trace s @ [E_WaitLatch d] \<and>
   tick (state_of (WaitLatch en d s)) = tick s \<and>
   BorderCollieDelay (state_of (WaitLatch en d s)) = BorderCollieDelay s"
proof (cases "deliver_all (wait_arrivals en) (log_event (E_WaitLatch d) s)")
  case (Running s1)
  with deliver_all_frame [of "wait_arrivals en" "log_event (E_WaitLatch d) s"] show ?thesis
    by (simp add: WaitLatch_def may_raise_def)
next
  case (ErrorRaised s1)
  with deliver_all_frame [of "wait_arrivals en" "log_event (E_WaitLatch d) s"] show ?thesis
    by (simp add: WaitLatch_def)
next
  case (Exited c s1)
  with deliver_all_frame [of "wait_arrivals en" "log_event (E_WaitLatch d) s"] show ?thesis
    by (simp add: WaitLatch_def)
next
  case (Killed k s1)
  with deliver_all_frame [of "wait_arrivals en" "log_event (E_WaitLatch d) s"] show ?thesis
    by (simp add: WaitLatch_def)
qed

lemma WaitLatch_sets_flag:
  assumes "WaitLatch en d s = Running s'" and "sg \<in> set (wait_arrivals en)"
  shows "(sig_handlers s sg = SignalHandlerForConfigReload \<longrightarrow> ConfigReloadPending s') \<and>
         (sig_handlers s sg = SignalHandlerForShutdownRequest \<longrightarrow> ShutdownRequestPending s')"
proof -
  from assms(1) have "deliver_all (wait_arrivals en) (log_event (E_WaitLatch d) s) = Running s'"
    by (cases "deliver_all (wait_arrivals en) (log_event (E_WaitLatch d) s)")
       (simp_all add: WaitLatch_def may_raise_def split: if_splits)
  from deliver_all_sets_flag [OF this assms(2)] show ?thesis
    by simp
qed

subsection \<open>The drain\<close>

lemma Handle_completes:
  assumes "\<not> (ProcSignalBarrierPending s \<and> raises en C_ProcessProcSignalBarrier)"
    and "\<not> (ConfigReloadPending s \<and> raises en C_ProcessConfigFile)"
  shows "\<exists>s'. HandleBorderCollieProcessInterrupts en s =
             (if ShutdownRequestPending s then Exited 0 (log_event (E_proc_exit 0) s')
              else Running s') \<and>
           trace s' = trace s @
             (if ProcSignalBarrierPending s then [E_ProcessProcSignalBarrier] else []) @
             (if ConfigReloadPending s then [E_ProcessConfigFile] else []) \<and>
           tick s' = tick s \<and>
           BorderCollieDelay s' =
             (if ConfigReloadPending s then config_delay en else BorderCollieDelay s) \<and>
           \<not> ProcSignalBarrierPending s' \<and> \<not> ConfigReloadPending s' \<and>
           ShutdownRequestPending s' = ShutdownRequestPending s \<and>
           sig_handlers s' = sig_handlers s"
proof -
  define s1 where "s1 =
    (if ProcSignalBarrierPending s
     then log_event E_ProcessProcSignalBarrier (s\<lparr>ProcSignalBarrierPending := False\<rparr>) else s)"
  define s2 where "s2 =
    (if ConfigReloadPending s1
     then log_event E_ProcessConfigFile
            (s1\<lparr>ConfigReloadPending := False, BorderCollieDelay := config_delay en\<rparr>)
     else s1)"
  have "HandleBorderCollieProcessInterrupts en s =
          (if ShutdownRequestPending s then Exited 0 (log_event (E_proc_exit 0) s2)
           else Running s2)"
    using assms
    by (cases "ProcSignalBarrierPending s"; cases "ConfigReloadPending s")
       (simp_all add: HandleBorderCollieProcessInterrupts_def ProcessProcSignalBarrier_def
        ProcessConfigFile_def proc_exit_def may_raise_def s1_def s2_def)
  moreover have "trace s2 = trace s @
      (if ProcSignalBarrierPending s then [E_ProcessProcSignalBarrier] else []) @
      (if ConfigReloadPending s then [E_ProcessConfigFile] else [])"
    and "tick s2 = tick s"
    and "BorderCollieDelay s2 =
      (if ConfigReloadPending s then config_delay en else BorderCollieDelay s)"
    and "\<not> ProcSignalBarrierPending s2" "\<not> ConfigReloadPending s2"
    and "ShutdownRequestPending s2 = ShutdownRequestPending s"
    and "sig_handlers s2 = sig_handlers s"
    by (simp_all add: s1_def s2_def)
  ultimately show ?thesis
    by blast
qed

lemma Handle_raises:
  assumes "(ProcSignalBarrierPending s \<and> raises en C_ProcessProcSignalBarrier) \<or>
           (ConfigReloadPending s \<and> raises en C_ProcessConfigFile)"
  shows "\<exists>s' es. HandleBorderCollieProcessInterrupts en s = ErrorRaised s' \<and>
           trace s' = trace s @ es \<and>
           set es \<subseteq> {E_ProcessProcSignalBarrier, E_ProcessConfigFile} \<and>
           tick s' = tick s \<and>
           ShutdownRequestPending s' = ShutdownRequestPending s"
  using assms
  by (cases "ProcSignalBarrierPending s"; cases "ConfigReloadPending s";
      cases "raises en C_ProcessProcSignalBarrier"; cases "raises en C_ProcessConfigFile")
     (simp_all add: drain_defs)

lemma Handle_prefix:
  "\<exists>rest.
     (if ProcSignalBarrierPending s then [E_ProcessProcSignalBarrier] else []) @
     (if ConfigReloadPending s then [E_ProcessConfigFile] else []) @
     (if ShutdownRequestPending s then [E_proc_exit 0] else []) =
     new_events s (state_of (HandleBorderCollieProcessInterrupts en s)) @ rest"
  by (cases "ProcSignalBarrierPending s"; cases "ConfigReloadPending s";
      cases "ShutdownRequestPending s"; cases "raises en C_ProcessProcSignalBarrier";
      cases "raises en C_ProcessConfigFile")
     (simp_all add: drain_defs new_events_def)

subsection \<open>One iteration\<close>

lemma ereport_LOG_cases:
  "ereport_LOG en t s =
     (if raises en C_ereport_LOG then ErrorRaised (log_event (E_ereport_LOG t) s)
      else Running (log_event (E_ereport_LOG t) s))"
  by (simp add: ereport_LOG_def may_raise_def)

lemma loop_iteration_handler_raises:
  assumes "(ProcSignalBarrierPending s \<and> raises en C_ProcessProcSignalBarrier) \<or>
           (ConfigReloadPending s \<and> raises en C_ProcessConfigFile)"
  shows "\<exists>s1 es. loop_iteration en s = ErrorRaised s1 \<and>
           trace s1 = trace s @ E_ResetLatch # es \<and>
           set es \<subseteq> {E_ProcessProcSignalBarrier, E_ProcessConfigFile} \<and>
           tick s1 = tick s \<and>
           ShutdownRequestPending s1 = ShutdownRequestPending s"
proof -
  from assms Handle_raises [of "log_event E_ResetLatch s" en] obtain s1 es
    where "HandleBorderCollieProcessInterrupts en (log_event E_ResetLatch s) = ErrorRaised s1"
      and "trace s1 = trace s @ E_ResetLatch # es"
      and "set es \<subseteq> {E_ProcessProcSignalBarrier, E_ProcessConfigFile}"
      and "tick s1 = tick s"
      and "ShutdownRequestPending s1 = ShutdownRequestPending s"
    by auto
  then show ?thesis
    by (simp add: loop_iteration_def)
qed

lemma loop_iteration_shutdown:
  assumes "\<not> (ProcSignalBarrierPending s \<and> raises en C_ProcessProcSignalBarrier)"
    and "\<not> (ConfigReloadPending s \<and> raises en C_ProcessConfigFile)"
    and "ShutdownRequestPending s"
  shows "\<exists>s'. loop_iteration en s = Exited 0 s' \<and>
           trace s' = trace s @ E_ResetLatch #
             (if ProcSignalBarrierPending s then [E_ProcessProcSignalBarrier] else []) @
             (if ConfigReloadPending s then [E_ProcessConfigFile] else []) @ [E_proc_exit 0] \<and>
           tick s' = tick s"
proof -
  from Handle_completes [of "log_event E_ResetLatch s" en] assms obtain s'
    where "HandleBorderCollieProcessInterrupts en (log_event E_ResetLatch s) =
             Exited 0 (log_event (E_proc_exit 0) s')"
      and "trace s' = trace s @ E_ResetLatch #
             ((if ProcSignalBarrierPending s then [E_ProcessProcSignalBarrier] else []) @
              (if ConfigReloadPending s then [E_ProcessConfigFile] else []))"
      and "tick s' = tick s"
    by auto
  then show ?thesis
    by (simp add: loop_iteration_def)
qed

lemma loop_iteration_completes:
  assumes "\<not> (ProcSignalBarrierPending s \<and> raises en C_ProcessProcSignalBarrier)"
    and "\<not> (ConfigReloadPending s \<and> raises en C_ProcessConfigFile)"
    and "\<not> ShutdownRequestPending s"
  shows "trace (state_of (loop_iteration en s)) =
           trace s @ E_ResetLatch #
           (if ProcSignalBarrierPending s then [E_ProcessProcSignalBarrier] else []) @
           (if ConfigReloadPending s then [E_ProcessConfigFile] else []) @
           E_ereport_LOG (tick s) #
           (if raises en C_ereport_LOG then []
            else [E_WaitLatch (if ConfigReloadPending s then config_delay en
                               else BorderCollieDelay s)])"
    and "BorderCollieDelay (state_of (loop_iteration en s)) =
           (if ConfigReloadPending s then config_delay en else BorderCollieDelay s)"
    and "\<forall>s' sg. loop_iteration en s = Running s' \<and> sg \<in> set (wait_arrivals en) \<longrightarrow>
           (sig_handlers s sg = SignalHandlerForConfigReload \<longrightarrow> ConfigReloadPending s') \<and>
           (sig_handlers s sg = SignalHandlerForShutdownRequest \<longrightarrow> ShutdownRequestPending s')"
proof -
  from Handle_completes [OF assms(1,2)] Handle_completes [of "log_event E_ResetLatch s" en]
    assms obtain s'
    where h: "HandleBorderCollieProcessInterrupts en (log_event E_ResetLatch s) = Running s'"
      and tr: "trace s' = trace s @ E_ResetLatch #
             ((if ProcSignalBarrierPending s then [E_ProcessProcSignalBarrier] else []) @
              (if ConfigReloadPending s then [E_ProcessConfigFile] else []))"
      and tk: "tick s' = tick s"
      and dl: "BorderCollieDelay s' =
             (if ConfigReloadPending s then config_delay en else BorderCollieDelay s)"
      and sh: "sig_handlers s' = sig_handlers s"
    by auto
  let ?s3 = "(log_event (E_ereport_LOG (tick s)) s')\<lparr>tick := tick s + 1\<rparr>"
  have it: "loop_iteration en s =
      (if raises en C_ereport_LOG then ErrorRaised (log_event (E_ereport_LOG (tick s)) s')
       else WaitLatch en (BorderCollieDelay s') ?s3)"
    by (simp add: loop_iteration_def h ereport_LOG_cases tk)
  have "trace (state_of (loop_iteration en s)) = trace s' @ E_ereport_LOG (tick s) #
      (if raises en C_ereport_LOG then [] else [E_WaitLatch (BorderCollieDelay s')])"
    and d: "BorderCollieDelay (state_of (loop_iteration en s)) = BorderCollieDelay s'"
    using WaitLatch_frame [of en "BorderCollieDelay s'" ?s3]
    by (simp_all add: it)
  then show "trace (state_of (loop_iteration en s)) =
           trace s @ E_ResetLatch #
           (if ProcSignalBarrierPending s then [E_ProcessProcSignalBarrier] else []) @
           (if ConfigReloadPending s then [E_ProcessConfigFile] else []) @
           E_ereport_LOG (tick s) #
           (if raises en C_ereport_LOG then []
            else [E_WaitLatch (if ConfigReloadPending s then config_delay en
                               else BorderCollieDelay s)])"
    by (simp add: tr dl)
  show "BorderCollieDelay (state_of (loop_iteration en s)) =
           (if ConfigReloadPending s then config_delay en else BorderCollieDelay s)"
    by (simp add: d dl)
  have "sig_handlers ?s3 = sig_handlers s"
    by (simp add: sh)
  then show "\<forall>s' sg. loop_iteration en s = Running s' \<and> sg \<in> set (wait_arrivals en) \<longrightarrow>
           (sig_handlers s sg = SignalHandlerForConfigReload \<longrightarrow> ConfigReloadPending s') \<and>
           (sig_handlers s sg = SignalHandlerForShutdownRequest \<longrightarrow> ShutdownRequestPending s')"
    using WaitLatch_sets_flag [of en "BorderCollieDelay s'" ?s3]
    by (auto simp add: it split: if_splits)
qed

text \<open>
  A notification that arrives while the Controller waits is pending when the next
  iteration starts: with the handlers of the main routine installed, a \<^verbatim>\<open>SIGHUP\<close>
  delivered during the wait leaves \<^verbatim>\<open>ConfigReloadPending\<close> set, a \<^verbatim>\<open>SIGTERM\<close> or \<^verbatim>\<open>SIGINT\<close>
  leaves \<^verbatim>\<open>ShutdownRequestPending\<close> set.
\<close>

lemma notification_received_mid_wait:
  assumes "loop_iteration en s = Running s'" and "sg \<in> set (wait_arrivals en)"
  shows "(sig_handlers s sg = SignalHandlerForConfigReload \<longrightarrow> ConfigReloadPending s') \<and>
         (sig_handlers s sg = SignalHandlerForShutdownRequest \<longrightarrow> ShutdownRequestPending s')"
proof (cases "(ProcSignalBarrierPending s \<and> raises en C_ProcessProcSignalBarrier) \<or>
           (ConfigReloadPending s \<and> raises en C_ProcessConfigFile)")
  case True
  from loop_iteration_handler_raises [OF this] assms(1) show ?thesis
    by auto
next
  case False
  then have calm: "\<not> (ProcSignalBarrierPending s \<and> raises en C_ProcessProcSignalBarrier)"
    "\<not> (ConfigReloadPending s \<and> raises en C_ProcessConfigFile)"
    by blast+
  show ?thesis
  proof (cases "ShutdownRequestPending s")
    case True
    from loop_iteration_shutdown [OF calm this] assms(1) show ?thesis
      by auto
  next
    case False
    from loop_iteration_completes(3) [OF calm this] assms show ?thesis
      by blast
  qed
qed

lemma started_eq:
  "enter_loop (startup a s) =
     s\<lparr>tick := 0,
       shm := (shm s)\<lparr>mem := store32 a (MyProcPid s) (mem (shm s)),
                      bordercollieLatch := Some (MyProc_procLatch s)\<rparr>,
       sig_handlers := (sig_handlers s)
         (SIGHUP := SignalHandlerForConfigReload, SIGINT := SignalHandlerForShutdownRequest,
          SIGTERM := SignalHandlerForShutdownRequest, SIGQUIT := SignalHandlerForCrashExit,
          SIGALRM := SIG_IGN, SIGPIPE := SIG_IGN, SIGUSR1 := procsignal_sigusr1_handler,
          SIGUSR2 := SIG_IGN, SIGCHLD := SIG_DFL),
       PG_exception_stack_set := True,
       trace := trace s @
         [E_store_border_collie_pid a (MyProcPid s),
          E_pqsignal SIGHUP SignalHandlerForConfigReload,
          E_pqsignal SIGINT SignalHandlerForShutdownRequest,
          E_pqsignal SIGTERM SignalHandlerForShutdownRequest,
          E_pqsignal SIGQUIT SignalHandlerForCrashExit,
          E_pqsignal SIGALRM SIG_IGN,
          E_pqsignal SIGPIPE SIG_IGN,
          E_pqsignal SIGUSR1 procsignal_sigusr1_handler,
          E_pqsignal SIGUSR2 SIG_IGN,
          E_pqsignal SIGCHLD SIG_DFL,
          E_sigdelset_BlockSig SIGQUIT, E_AllocSetContextCreate, E_MemoryContextSwitchTo,
          E_PG_SETMASK_UnBlockSig, E_advertise_latch (MyProc_procLatch s)]\<rparr>"
  by (simp add: startup_def enter_loop_def pqsignal_def log_event_def
      BorderCollieProcessInit_def Let_def)

lemmas iteration_defs =
  loop_iteration_def drain_defs ereport_LOG_def WaitLatch_def deliver_def

section \<open>Runs of the main routine\<close>

lemma recovery_frame:
  "trace (enter_loop (error_recovery (siglongjmp en s))) = trace s @
     [E_EmitErrorReport, E_LWLockReleaseAll, E_ConditionVariableCancelSleep,
      E_pgstat_report_wait_end, E_AbortBufferIO, E_UnlockBuffers,
      E_ReleaseAuxProcessResources False, E_AtEOXact_Buffers False, E_AtEOXact_SMgr,
      E_AtEOXact_Files False, E_AtEOXact_HashTables False, E_MemoryContextSwitchTo,
      E_FlushErrorState, E_MemoryContextResetAndDeleteChildren,
      E_pg_usleep 1000000, E_smgrcloseall,
      E_PG_SETMASK_UnBlockSig, E_advertise_latch (MyProc_procLatch s)]"
  "InterruptHoldoffCount (enter_loop (error_recovery (siglongjmp en s))) = InterruptHoldoffCount s"
  "ShutdownRequestPending (enter_loop (error_recovery (siglongjmp en s))) = ShutdownRequestPending s"
  "tick (enter_loop (error_recovery (siglongjmp en s))) = tick_after_longjmp en"
  by (simp_all add: enter_loop_def error_recovery_def siglongjmp_def Let_def
      BorderCollieProcessInit_def log_event_def)

lemma loop_iteration_extends:
  "\<exists>es. trace (state_of (loop_iteration en s)) = trace s @ es"
proof (cases "(ProcSignalBarrierPending s \<and> raises en C_ProcessProcSignalBarrier) \<or>
           (ConfigReloadPending s \<and> raises en C_ProcessConfigFile)")
  case True
  from loop_iteration_handler_raises [OF this] show ?thesis
    by auto
next
  case False
  then have calm: "\<not> (ProcSignalBarrierPending s \<and> raises en C_ProcessProcSignalBarrier)"
    "\<not> (ConfigReloadPending s \<and> raises en C_ProcessConfigFile)"
    by blast+
  show ?thesis
  proof (cases "ShutdownRequestPending s")
    case True
    from loop_iteration_shutdown [OF calm this] show ?thesis
      by auto
  next
    case False
    from loop_iteration_completes(1) [OF calm this] show ?thesis
      by simp
  qed
qed

lemma main_loop_extends:
  "\<exists>es. trace (state_of (main_loop ens s)) = trace s @ es"
proof (induction ens arbitrary: s)
  case Nil
  show ?case by simp
next
  case (Cons en ens)
  from loop_iteration_extends [of en s] obtain es
    where es: "trace (state_of (loop_iteration en s)) = trace s @ es"
    by blast
  show ?case
  proof (cases "loop_iteration en s")
    case (Running s1)
    with es Cons.IH [of s1] show ?thesis by auto
  next
    case (ErrorRaised s1)
    with es Cons.IH [of "enter_loop (error_recovery (siglongjmp en s1))"]
    show ?thesis by (auto simp add: recovery_frame(1))
  next
    case (Exited c s1)
    with es show ?thesis by simp
  next
    case (Killed k s1)
    with es show ?thesis by simp
  qed
qed

lemma main_loop_first_iteration:
  "\<exists>es. trace (state_of (main_loop (en # ens) s)) = trace (state_of (loop_iteration en s)) @ es"
proof (cases "loop_iteration en s")
  case (Running s1)
  with main_loop_extends [of ens s1] show ?thesis by simp
next
  case (ErrorRaised s1)
  with main_loop_extends [of ens "enter_loop (error_recovery (siglongjmp en s1))"]
  show ?thesis by (auto simp add: recovery_frame(1))
next
  case (Exited c s1)
  then show ?thesis by simp
next
  case (Killed k s1)
  then show ?thesis by simp
qed





text \<open>
  C6. The main routine stores \<^verbatim>\<open>MyProcPid\<close> into the Registration Record's
  \<^verbatim>\<open>border_collie_pid\<close> before anything else: the store is the first event of the run, ahead
  of the installation of the signal handlers, and in the state in which the loop is
  entered the field already holds the Controller's pid. Whatever the run does afterwards
  only adds events after these.
\<close>

theorem pid_recorded_before_first_iteration:
  assumes "BorderCollieShmem s = Some a"
  shows "\<exists>s0 later.
           BorderCollieProcessMain ens s = main_loop ens s0 \<and>
           border_collie_pid s0 = Some (MyProcPid s) \<and>
           new_events s s0 =
             [E_store_border_collie_pid a (MyProcPid s),
              E_pqsignal SIGHUP SignalHandlerForConfigReload,
              E_pqsignal SIGINT SignalHandlerForShutdownRequest,
              E_pqsignal SIGTERM SignalHandlerForShutdownRequest,
              E_pqsignal SIGQUIT SignalHandlerForCrashExit,
              E_pqsignal SIGALRM SIG_IGN,
              E_pqsignal SIGPIPE SIG_IGN,
              E_pqsignal SIGUSR1 procsignal_sigusr1_handler,
              E_pqsignal SIGUSR2 SIG_IGN,
              E_pqsignal SIGCHLD SIG_DFL,
              E_sigdelset_BlockSig SIGQUIT, E_AllocSetContextCreate, E_MemoryContextSwitchTo,
              E_PG_SETMASK_UnBlockSig, E_advertise_latch (MyProc_procLatch s)] \<and>
           trace (state_of (BorderCollieProcessMain ens s)) = trace s0 @ later"
proof -
  let ?s0 = "enter_loop (startup a s)"
  have "BorderCollieProcessMain ens s = main_loop ens ?s0"
    using assms by (simp add: BorderCollieProcessMain_def)
  moreover have "border_collie_pid ?s0 = Some (MyProcPid s)"
    using assms
    by (simp add: border_collie_pid_def BorderCollieShmem_enter_loop BorderCollieShmem_startup
        shm_enter_loop shm_startup load32_store32)
  moreover have "new_events s ?s0 =
             [E_store_border_collie_pid a (MyProcPid s),
              E_pqsignal SIGHUP SignalHandlerForConfigReload,
              E_pqsignal SIGINT SignalHandlerForShutdownRequest,
              E_pqsignal SIGTERM SignalHandlerForShutdownRequest,
              E_pqsignal SIGQUIT SignalHandlerForCrashExit,
              E_pqsignal SIGALRM SIG_IGN,
              E_pqsignal SIGPIPE SIG_IGN,
              E_pqsignal SIGUSR1 procsignal_sigusr1_handler,
              E_pqsignal SIGUSR2 SIG_IGN,
              E_pqsignal SIGCHLD SIG_DFL,
              E_sigdelset_BlockSig SIGQUIT, E_AllocSetContextCreate, E_MemoryContextSwitchTo,
              E_PG_SETMASK_UnBlockSig, E_advertise_latch (MyProc_procLatch s)]"
    by (simp add: new_events_def trace_enter_loop trace_startup MyProc_procLatch_startup)
  moreover from main_loop_extends [of ens ?s0] obtain later
    where "trace (state_of (main_loop ens ?s0)) = trace ?s0 @ later"
    by blast
  ultimately show ?thesis
    by auto
qed

theorem pid_recorded_before_first_iteration_witness:
  "BorderCollieShmem controller = Some 0 \<and>
   border_collie_pid controller = Some 0 \<and>
   (\<exists>s0 later. BorderCollieProcessMain [quiet] controller = main_loop [quiet] s0 \<and>
      border_collie_pid s0 = Some 4711 \<and>
      hd (new_events controller s0) = E_store_border_collie_pid 0 4711 \<and>
      trace (state_of (BorderCollieProcessMain [quiet] controller)) = trace s0 @ later)"
proof -
  have ptr: "BorderCollieShmem controller = Some 0"
    by (simp add: controller_def)
  have before: "border_collie_pid controller = Some 0"
    by (simp add: border_collie_pid_def controller_def booted_segment_def load32_def MemSet_def)
  from pid_recorded_before_first_iteration [OF ptr, of "[quiet]"] obtain s0 later
    where "BorderCollieProcessMain [quiet] controller = main_loop [quiet] s0"
      and "border_collie_pid s0 = Some (MyProcPid controller)"
      and "hd (new_events controller s0) = E_store_border_collie_pid 0 (MyProcPid controller)"
      and "trace (state_of (BorderCollieProcessMain [quiet] controller)) = trace s0 @ later"
    by auto
  moreover have "MyProcPid controller = 4711"
    by (simp add: controller_def)
  ultimately show ?thesis
    using ptr before by auto
qed


text \<open>
  C2, as the code has it. An error raised during an iteration does not end the process:
  the run goes on from the loop top with the rest of its script. In between, the recovery block reports the
  error, runs its fixed sequence of releases, resets the working memory context and
  sleeps 1000000 microseconds, a constant that does not depend on \<^verbatim>\<open>BorderCollieDelay\<close>;
  the interrupt hold-off count is back to what it was and the pending flags are kept.
  The next iteration then writes the next tick line, unless a shutdown request is
  pending or one of its interrupt handlers raises again.
\<close>

theorem error_recovered_and_loop_resumed:
  assumes "loop_iteration en s = ErrorRaised s1"
  shows "let s2 = enter_loop (error_recovery (siglongjmp en s1)) in
           main_loop (en # ens) s = main_loop ens s2 \<and>
           trace s2 = trace s1 @
             [E_EmitErrorReport, E_LWLockReleaseAll, E_ConditionVariableCancelSleep,
              E_pgstat_report_wait_end, E_AbortBufferIO, E_UnlockBuffers,
              E_ReleaseAuxProcessResources False, E_AtEOXact_Buffers False, E_AtEOXact_SMgr,
              E_AtEOXact_Files False, E_AtEOXact_HashTables False, E_MemoryContextSwitchTo,
              E_FlushErrorState, E_MemoryContextResetAndDeleteChildren,
              E_pg_usleep 1000000, E_smgrcloseall,
              E_PG_SETMASK_UnBlockSig, E_advertise_latch (MyProc_procLatch s1)] \<and>
           InterruptHoldoffCount s2 = InterruptHoldoffCount s1 \<and>
           ShutdownRequestPending s2 = ShutdownRequestPending s1 \<and>
           (\<forall>en' ens'. ens = en' # ens' \<and> \<not> ShutdownRequestPending s1 \<and>
                \<not> raises en' C_ProcessProcSignalBarrier \<and> \<not> raises en' C_ProcessConfigFile \<longrightarrow>
              (\<exists>pre post. trace (state_of (main_loop ens s2)) =
                  trace s2 @ E_ResetLatch # pre @ E_ereport_LOG (tick s2) # post \<and>
                  set pre \<subseteq> {E_ProcessProcSignalBarrier, E_ProcessConfigFile}))"
proof -
  let ?s2 = "enter_loop (error_recovery (siglongjmp en s1))"
  have run: "main_loop (en # ens) s = main_loop ens ?s2"
    using assms by simp
  have next_tick: "\<exists>pre post. trace (state_of (main_loop ens ?s2)) =
        trace ?s2 @ E_ResetLatch # pre @ E_ereport_LOG (tick ?s2) # post \<and>
        set pre \<subseteq> {E_ProcessProcSignalBarrier, E_ProcessConfigFile}"
    if ens: "ens = en' # ens'" and sd: "\<not> ShutdownRequestPending s1"
      and calm: "\<not> raises en' C_ProcessProcSignalBarrier" "\<not> raises en' C_ProcessConfigFile"
    for en' ens'
  proof -
    have sd2: "\<not> ShutdownRequestPending ?s2"
      using sd by (simp add: recovery_frame(3))
    from calm have "\<not> (ProcSignalBarrierPending ?s2 \<and> raises en' C_ProcessProcSignalBarrier)"
      "\<not> (ConfigReloadPending ?s2 \<and> raises en' C_ProcessConfigFile)"
      by simp_all
    note it = loop_iteration_completes(1) [OF this sd2]
    from main_loop_first_iteration [of en' ens' ?s2] obtain es
      where "trace (state_of (main_loop ens ?s2)) = trace (state_of (loop_iteration en' ?s2)) @ es"
      unfolding ens by blast
    then have "trace (state_of (main_loop ens ?s2)) =
        trace ?s2 @ E_ResetLatch #
          ((if ProcSignalBarrierPending ?s2 then [E_ProcessProcSignalBarrier] else []) @
           (if ConfigReloadPending ?s2 then [E_ProcessConfigFile] else [])) @
          E_ereport_LOG (tick ?s2) #
          ((if raises en' C_ereport_LOG then []
            else [E_WaitLatch (if ConfigReloadPending ?s2 then config_delay en'
                               else BorderCollieDelay ?s2)]) @ es)"
      by (simp add: it)
    moreover have "set ((if ProcSignalBarrierPending ?s2 then [E_ProcessProcSignalBarrier] else []) @
           (if ConfigReloadPending ?s2 then [E_ProcessConfigFile] else []))
        \<subseteq> {E_ProcessProcSignalBarrier, E_ProcessConfigFile}"
      by auto
    ultimately show ?thesis
      by blast
  qed
  from run next_tick show ?thesis
    unfolding Let_def by (simp add: recovery_frame)
qed

text \<open>
  An error raised by the wait of an iteration, with the delay at 1000 ms: the run
  recovers, sleeps its fixed second and writes the next tick line.
\<close>

theorem error_recovered_and_loop_resumed_witness:
  "(\<exists>s1. loop_iteration (quiet\<lparr>raises := (\<lambda>c. c = C_WaitLatch)\<rparr>) controller = ErrorRaised s1) \<and>
   (\<exists>s3. main_loop [quiet\<lparr>raises := (\<lambda>c. c = C_WaitLatch)\<rparr>, quiet] controller = Running s3 \<and>
      trace s3 =
        [E_ResetLatch, E_ereport_LOG 0, E_WaitLatch 1000,
         E_EmitErrorReport, E_LWLockReleaseAll, E_ConditionVariableCancelSleep,
         E_pgstat_report_wait_end, E_AbortBufferIO, E_UnlockBuffers,
         E_ReleaseAuxProcessResources False, E_AtEOXact_Buffers False, E_AtEOXact_SMgr,
         E_AtEOXact_Files False, E_AtEOXact_HashTables False, E_MemoryContextSwitchTo,
         E_FlushErrorState, E_MemoryContextResetAndDeleteChildren,
         E_pg_usleep 1000000, E_smgrcloseall,
         E_PG_SETMASK_UnBlockSig, E_advertise_latch 100,
         E_ResetLatch, E_ereport_LOG 0, E_WaitLatch 1000])"
proof -
  let ?en = "quiet\<lparr>raises := (\<lambda>c. c = C_WaitLatch)\<rparr>"
  let ?s1 = "(log_event (E_WaitLatch 1000)
      ((log_event (E_ereport_LOG 0) (log_event E_ResetLatch controller))\<lparr>tick := 1\<rparr>))"
  let ?s2 = "enter_loop (error_recovery (siglongjmp ?en ?s1))"
  have raised: "loop_iteration ?en controller = ErrorRaised ?s1"
    by (simp add: loop_iteration_def drain_defs ereport_LOG_def WaitLatch_def quiet_def
        controller_def)
  from error_recovered_and_loop_resumed [OF raised, of "[quiet]"]
  have run: "main_loop [?en, quiet] controller = main_loop [quiet] ?s2"
    and tr: "trace ?s2 = trace ?s1 @
             [E_EmitErrorReport, E_LWLockReleaseAll, E_ConditionVariableCancelSleep,
              E_pgstat_report_wait_end, E_AbortBufferIO, E_UnlockBuffers,
              E_ReleaseAuxProcessResources False, E_AtEOXact_Buffers False, E_AtEOXact_SMgr,
              E_AtEOXact_Files False, E_AtEOXact_HashTables False, E_MemoryContextSwitchTo,
              E_FlushErrorState, E_MemoryContextResetAndDeleteChildren,
              E_pg_usleep 1000000, E_smgrcloseall,
              E_PG_SETMASK_UnBlockSig, E_advertise_latch (MyProc_procLatch ?s1)]"
    unfolding Let_def by blast+
  have s1: "trace ?s1 = [E_ResetLatch, E_ereport_LOG 0, E_WaitLatch 1000]"
    "MyProc_procLatch ?s1 = 100"
    by (simp_all add: controller_def)
  have flags: "\<not> ProcSignalBarrierPending ?s2" "\<not> ConfigReloadPending ?s2"
    "\<not> ShutdownRequestPending ?s2" "tick ?s2 = 0" "BorderCollieDelay ?s2 = 1000"
    by (simp_all add: enter_loop_def error_recovery_def siglongjmp_def Let_def
        BorderCollieProcessInit_def log_event_def controller_def quiet_def)
  have "\<exists>s3. loop_iteration quiet ?s2 = Running s3"
    using flags
    by (simp add: loop_iteration_def drain_defs ereport_LOG_def WaitLatch_def quiet_def)
  then obtain s3 where s3: "loop_iteration quiet ?s2 = Running s3"
    by blast
  have calm: "\<not> raises quiet C_ProcessProcSignalBarrier" "\<not> raises quiet C_ProcessConfigFile"
    and log_ok: "\<not> raises quiet C_ereport_LOG"
    by (simp_all add: quiet_def)
  from calm have "\<not> (ProcSignalBarrierPending ?s2 \<and> raises quiet C_ProcessProcSignalBarrier)"
    "\<not> (ConfigReloadPending ?s2 \<and> raises quiet C_ProcessConfigFile)"
    by simp_all
  from loop_iteration_completes(1) [OF this flags(3)] flags log_ok
  have "trace s3 = trace ?s2 @ [E_ResetLatch, E_ereport_LOG 0, E_WaitLatch 1000]"
    by (simp add: s3)
  with tr s1 have "trace s3 =
        [E_ResetLatch, E_ereport_LOG 0, E_WaitLatch 1000,
         E_EmitErrorReport, E_LWLockReleaseAll, E_ConditionVariableCancelSleep,
         E_pgstat_report_wait_end, E_AbortBufferIO, E_UnlockBuffers,
         E_ReleaseAuxProcessResources False, E_AtEOXact_Buffers False, E_AtEOXact_SMgr,
         E_AtEOXact_Files False, E_AtEOXact_HashTables False, E_MemoryContextSwitchTo,
         E_FlushErrorState, E_MemoryContextResetAndDeleteChildren,
         E_pg_usleep 1000000, E_smgrcloseall,
         E_PG_SETMASK_UnBlockSig, E_advertise_latch 100,
         E_ResetLatch, E_ereport_LOG 0, E_WaitLatch 1000]"
    by simp
  moreover have "main_loop [?en, quiet] controller = Running s3"
    unfolding run by (simp add: s3)
  ultimately show ?thesis
    using raised by blast
qed


section \<open>Drain order, reload and recovery over whole iterations and runs\<close>

lemma Handle_raises_prefix:
  assumes "(ProcSignalBarrierPending s \<and> raises en C_ProcessProcSignalBarrier) \<or>
           (ConfigReloadPending s \<and> raises en C_ProcessConfigFile)"
  shows "\<exists>s' es rest. HandleBorderCollieProcessInterrupts en s = ErrorRaised s' \<and>
           trace s' = trace s @ es \<and>
           (if ProcSignalBarrierPending s then [E_ProcessProcSignalBarrier] else []) @
           (if ConfigReloadPending s then [E_ProcessConfigFile] else []) @
           (if ShutdownRequestPending s then [E_proc_exit 0] else []) = es @ rest"
  using assms
  by (cases "ProcSignalBarrierPending s"; cases "ConfigReloadPending s";
      cases "ShutdownRequestPending s"; cases "raises en C_ProcessProcSignalBarrier";
      cases "raises en C_ProcessConfigFile")
     (simp_all add: drain_defs)

lemma loop_iteration_raises_prefix:
  assumes "(ProcSignalBarrierPending s \<and> raises en C_ProcessProcSignalBarrier) \<or>
           (ConfigReloadPending s \<and> raises en C_ProcessConfigFile)"
  shows "\<exists>es rest. trace (state_of (loop_iteration en s)) = trace s @ E_ResetLatch # es \<and>
           (if ProcSignalBarrierPending s then [E_ProcessProcSignalBarrier] else []) @
           (if ConfigReloadPending s then [E_ProcessConfigFile] else []) @
           (if ShutdownRequestPending s then [E_proc_exit 0] else []) = es @ rest"
proof -
  from assms Handle_raises_prefix [of "log_event E_ResetLatch s" en] obtain s1 es rest
    where "HandleBorderCollieProcessInterrupts en (log_event E_ResetLatch s) = ErrorRaised s1"
      and "trace s1 = trace s @ E_ResetLatch # es"
      and "(if ProcSignalBarrierPending s then [E_ProcessProcSignalBarrier] else []) @
           (if ConfigReloadPending s then [E_ProcessConfigFile] else []) @
           (if ShutdownRequestPending s then [E_proc_exit 0] else []) = es @ rest"
    by auto
  then show ?thesis
    by (auto simp add: loop_iteration_def)
qed


lemma recovery_keeps:
  "ConfigReloadPending (enter_loop (error_recovery (siglongjmp en s))) = ConfigReloadPending s"
  "ProcSignalBarrierPending (enter_loop (error_recovery (siglongjmp en s))) =
     ProcSignalBarrierPending s"
  "BorderCollieDelay (enter_loop (error_recovery (siglongjmp en s))) = BorderCollieDelay s"
  "MyProc_procLatch (enter_loop (error_recovery (siglongjmp en s))) = MyProc_procLatch s"
  by (simp_all add: enter_loop_def error_recovery_def siglongjmp_def Let_def
      BorderCollieProcessInit_def log_event_def)

text \<open>
  C4. In every loop iteration the latch is reset and then the pending requests are
  drained in a fixed order, each acted on only if its flag is set: the barrier request
  first, the configuration-reload request second, the shutdown request last. The calls of
  an iteration are the latch reset, then an initial part of that list (the whole list
  unless a handler that is called raises an error), and only after it the tick line and
  the wait. When the handlers return, a set shutdown flag leads straight to
  \<^verbatim>\<open>proc_exit(0)\<close> and ends the iteration there; otherwise the tick line and the wait
  follow. The same order holds of the drain routine taken by itself, whose two handlers
  leave their flags cleared.
\<close>

theorem interrupts_drained_in_order:
  "(\<exists>drained rest after.
      new_events s (state_of (loop_iteration en s)) = E_ResetLatch # drained @ after \<and>
      (if ProcSignalBarrierPending s then [E_ProcessProcSignalBarrier] else []) @
      (if ConfigReloadPending s then [E_ProcessConfigFile] else []) @
      (if ShutdownRequestPending s then [E_proc_exit 0] else []) = drained @ rest \<and>
      set after \<subseteq> insert (E_ereport_LOG (tick s)) (range E_WaitLatch)) \<and>
   (\<not> (ProcSignalBarrierPending s \<and> raises en C_ProcessProcSignalBarrier) \<and>
    \<not> (ConfigReloadPending s \<and> raises en C_ProcessConfigFile) \<longrightarrow>
      new_events s (state_of (loop_iteration en s)) =
        E_ResetLatch #
        (if ProcSignalBarrierPending s then [E_ProcessProcSignalBarrier] else []) @
        (if ConfigReloadPending s then [E_ProcessConfigFile] else []) @
        (if ShutdownRequestPending s then [E_proc_exit 0]
         else E_ereport_LOG (tick s) #
              (if raises en C_ereport_LOG then []
               else [E_WaitLatch (if ConfigReloadPending s then config_delay en
                                  else BorderCollieDelay s)])) \<and>
      (ShutdownRequestPending s \<longrightarrow> (\<exists>s'. loop_iteration en s = Exited 0 s')) \<and>
      new_events s (state_of (HandleBorderCollieProcessInterrupts en s)) =
        (if ProcSignalBarrierPending s then [E_ProcessProcSignalBarrier] else []) @
        (if ConfigReloadPending s then [E_ProcessConfigFile] else []) @
        (if ShutdownRequestPending s then [E_proc_exit 0] else []) \<and>
      (if ShutdownRequestPending s
       then \<exists>s'. HandleBorderCollieProcessInterrupts en s = Exited 0 s'
       else \<exists>s'. HandleBorderCollieProcessInterrupts en s = Running s' \<and>
              \<not> ProcSignalBarrierPending s' \<and> \<not> ConfigReloadPending s')) \<and>
   (\<exists>rest.
      (if ProcSignalBarrierPending s then [E_ProcessProcSignalBarrier] else []) @
      (if ConfigReloadPending s then [E_ProcessConfigFile] else []) @
      (if ShutdownRequestPending s then [E_proc_exit 0] else []) =
      new_events s (state_of (HandleBorderCollieProcessInterrupts en s)) @ rest)"
proof -
  let ?B = "if ProcSignalBarrierPending s then [E_ProcessProcSignalBarrier] else []"
  let ?C = "if ConfigReloadPending s then [E_ProcessConfigFile] else []"
  let ?X = "if ShutdownRequestPending s then [E_proc_exit 0] else []"
  let ?T = "E_ereport_LOG (tick s) #
              (if raises en C_ereport_LOG then []
               else [E_WaitLatch (if ConfigReloadPending s then config_delay en
                                  else BorderCollieDelay s)])"
  let ?it = "new_events s (state_of (loop_iteration en s))"
  have whole: "?it = E_ResetLatch # ?B @ ?C @ (if ShutdownRequestPending s then [E_proc_exit 0] else ?T)"
    and exits: "ShutdownRequestPending s \<longrightarrow> (\<exists>s'. loop_iteration en s = Exited 0 s')"
    if calm: "\<not> (ProcSignalBarrierPending s \<and> raises en C_ProcessProcSignalBarrier)"
      "\<not> (ConfigReloadPending s \<and> raises en C_ProcessConfigFile)"
  proof -
    show "?it = E_ResetLatch # ?B @ ?C @ (if ShutdownRequestPending s then [E_proc_exit 0] else ?T)"
    proof (cases "ShutdownRequestPending s")
      case True
      from loop_iteration_shutdown [OF calm this] True show ?thesis
        by (auto simp add: new_events_def)
    next
      case False
      from loop_iteration_completes(1) [OF calm this] False show ?thesis
        by (simp add: new_events_def)
    qed
    show "ShutdownRequestPending s \<longrightarrow> (\<exists>s'. loop_iteration en s = Exited 0 s')"
      using loop_iteration_shutdown [OF calm] by blast
  qed
  have part: "\<exists>drained rest after. ?it = E_ResetLatch # drained @ after \<and>
      ?B @ ?C @ ?X = drained @ rest \<and>
      set after \<subseteq> insert (E_ereport_LOG (tick s)) (range E_WaitLatch)"
  proof (cases "(ProcSignalBarrierPending s \<and> raises en C_ProcessProcSignalBarrier) \<or>
           (ConfigReloadPending s \<and> raises en C_ProcessConfigFile)")
    case True
    from loop_iteration_raises_prefix [OF this] obtain es rest
      where "trace (state_of (loop_iteration en s)) = trace s @ E_ResetLatch # es"
        and "?B @ ?C @ ?X = es @ rest"
      by blast
    then have "?it = E_ResetLatch # es @ []" "?B @ ?C @ ?X = es @ rest"
      "set [] \<subseteq> insert (E_ereport_LOG (tick s)) (range E_WaitLatch)"
      by (simp_all add: new_events_def)
    then show ?thesis
      by blast
  next
    case False
    then have calm: "\<not> (ProcSignalBarrierPending s \<and> raises en C_ProcessProcSignalBarrier)"
      "\<not> (ConfigReloadPending s \<and> raises en C_ProcessConfigFile)"
      by blast+
    let ?after = "if ShutdownRequestPending s then [] else ?T"
    have "?it = E_ResetLatch # (?B @ ?C @ ?X) @ ?after"
      using whole [OF calm] by simp
    moreover have "?B @ ?C @ ?X = (?B @ ?C @ ?X) @ []"
      by simp
    moreover have "set ?after \<subseteq> insert (E_ereport_LOG (tick s)) (range E_WaitLatch)"
      by auto
    ultimately show ?thesis
      by blast
  qed
  have drain: "new_events s (state_of (HandleBorderCollieProcessInterrupts en s)) = ?B @ ?C @ ?X \<and>
      (if ShutdownRequestPending s
       then \<exists>s'. HandleBorderCollieProcessInterrupts en s = Exited 0 s'
       else \<exists>s'. HandleBorderCollieProcessInterrupts en s = Running s' \<and>
              \<not> ProcSignalBarrierPending s' \<and> \<not> ConfigReloadPending s')"
    if calm: "\<not> (ProcSignalBarrierPending s \<and> raises en C_ProcessProcSignalBarrier)"
      "\<not> (ConfigReloadPending s \<and> raises en C_ProcessConfigFile)"
  proof -
    from Handle_completes [OF calm] obtain s'
      where "HandleBorderCollieProcessInterrupts en s =
               (if ShutdownRequestPending s then Exited 0 (log_event (E_proc_exit 0) s')
                else Running s')"
        and "trace s' = trace s @ ?B @ ?C"
        and "\<not> ProcSignalBarrierPending s'" "\<not> ConfigReloadPending s'"
      by blast
    then show ?thesis
      by (simp add: new_events_def log_event_def)
  qed
  from part whole exits drain Handle_prefix [of s en] show ?thesis
    by blast
qed

theorem interrupts_drained_in_order_witness:
  "new_events (controller\<lparr>ProcSignalBarrierPending := True, ConfigReloadPending := True,
       ShutdownRequestPending := True\<rparr>)
     (state_of (loop_iteration quiet
        (controller\<lparr>ProcSignalBarrierPending := True, ConfigReloadPending := True,
           ShutdownRequestPending := True\<rparr>))) =
     [E_ResetLatch, E_ProcessProcSignalBarrier, E_ProcessConfigFile, E_proc_exit 0] \<and>
   new_events (controller\<lparr>ConfigReloadPending := True\<rparr>)
     (state_of (loop_iteration quiet (controller\<lparr>ConfigReloadPending := True\<rparr>))) =
     [E_ResetLatch, E_ProcessConfigFile, E_ereport_LOG 0, E_WaitLatch 50] \<and>
   new_events controller (state_of (loop_iteration quiet controller)) =
     [E_ResetLatch, E_ereport_LOG 0, E_WaitLatch 1000]"
proof -
  have calm: "\<not> raises quiet C_ProcessProcSignalBarrier" "\<not> raises quiet C_ProcessConfigFile"
    "\<not> raises quiet C_ereport_LOG" "config_delay quiet = 50"
    by (simp_all add: quiet_def)
  let ?s3 = "controller\<lparr>ProcSignalBarrierPending := True, ConfigReloadPending := True,
        ShutdownRequestPending := True\<rparr>"
  let ?s1 = "controller\<lparr>ConfigReloadPending := True\<rparr>"
  have flags: "ProcSignalBarrierPending ?s3" "ConfigReloadPending ?s3" "ShutdownRequestPending ?s3"
    "\<not> ProcSignalBarrierPending ?s1" "ConfigReloadPending ?s1" "\<not> ShutdownRequestPending ?s1"
    "tick ?s1 = 0"
    "\<not> ProcSignalBarrierPending controller" "\<not> ConfigReloadPending controller"
    "\<not> ShutdownRequestPending controller" "tick controller = 0"
    "BorderCollieDelay controller = 1000"
    by (simp_all add: controller_def)
  from interrupts_drained_in_order [of ?s3 quiet] calm flags(1-3)
  have "new_events ?s3 (state_of (loop_iteration quiet ?s3)) =
      [E_ResetLatch, E_ProcessProcSignalBarrier, E_ProcessConfigFile, E_proc_exit 0]"
    by simp
  moreover from interrupts_drained_in_order [of ?s1 quiet] calm flags(4-7)
  have "new_events ?s1 (state_of (loop_iteration quiet ?s1)) =
      [E_ResetLatch, E_ProcessConfigFile, E_ereport_LOG 0, E_WaitLatch 50]"
    by simp
  moreover from interrupts_drained_in_order [of controller quiet] calm flags(8-12)
  have "new_events controller (state_of (loop_iteration quiet controller)) =
      [E_ResetLatch, E_ereport_LOG 0, E_WaitLatch 1000]"
    by simp
  ultimately show ?thesis
    by (simp only: simp_thms)
qed







text \<open>
  C2 as stated fails when a shutdown request is pending after the recovery. A \<^verbatim>\<open>SIGTERM\<close>
  arrives during the wait and the wait then raises an error: the run recovers, sleeps,
  resumes the loop, and the resumed iteration exits with status 0 without a tick line.
\<close>

theorem error_then_shutdown_skips_tick:
  "loop_iteration wait_raises_after_SIGTERM started =
     ErrorRaised (state_of (loop_iteration wait_raises_after_SIGTERM started)) \<and>
   main_loop [wait_raises_after_SIGTERM, quiet] started =
     Exited 0 (state_of (main_loop [wait_raises_after_SIGTERM, quiet] started)) \<and>
   new_events started (state_of (main_loop [wait_raises_after_SIGTERM, quiet] started)) =
     [E_ResetLatch, E_ereport_LOG 0, E_WaitLatch 1000,
      E_EmitErrorReport, E_LWLockReleaseAll, E_ConditionVariableCancelSleep,
      E_pgstat_report_wait_end, E_AbortBufferIO, E_UnlockBuffers,
      E_ReleaseAuxProcessResources False, E_AtEOXact_Buffers False, E_AtEOXact_SMgr,
      E_AtEOXact_Files False, E_AtEOXact_HashTables False, E_MemoryContextSwitchTo,
      E_FlushErrorState, E_MemoryContextResetAndDeleteChildren,
      E_pg_usleep 1000000, E_smgrcloseall,
      E_PG_SETMASK_UnBlockSig, E_advertise_latch 100,
      E_ResetLatch, E_proc_exit 0]"
proof -
  let ?en = wait_raises_after_SIGTERM
  let ?it = "loop_iteration ?en started"
  have "\<exists>s1. ?it = ErrorRaised s1"
    unfolding started_def started_eq
    by (simp add: iteration_defs controller_def wait_raises_after_SIGTERM_def)
  then obtain s1 where it: "?it = ErrorRaised s1"
    by blast
  have "ShutdownRequestPending (state_of ?it)" "\<not> ConfigReloadPending (state_of ?it)"
    "\<not> ProcSignalBarrierPending (state_of ?it)" "MyProc_procLatch (state_of ?it) = 100"
    unfolding started_def started_eq
    by (simp_all add: iteration_defs controller_def wait_raises_after_SIGTERM_def)
  then have s1: "ShutdownRequestPending s1" "\<not> ConfigReloadPending s1"
    "\<not> ProcSignalBarrierPending s1" "MyProc_procLatch s1 = 100"
    by (simp_all add: it)
  have "\<not> ShutdownRequestPending started" "\<not> ConfigReloadPending started"
    "\<not> ProcSignalBarrierPending started" "tick started = 0" "BorderCollieDelay started = 1000"
    "\<not> raises ?en C_ProcessProcSignalBarrier" "\<not> raises ?en C_ProcessConfigFile"
    "\<not> raises ?en C_ereport_LOG"
    unfolding started_def started_eq
    by (simp_all add: controller_def wait_raises_after_SIGTERM_def)
  with loop_iteration_completes(1) [of started ?en]
  have tr1: "trace s1 = trace started @ [E_ResetLatch, E_ereport_LOG 0, E_WaitLatch 1000]"
    by (simp add: it)
  let ?s2 = "enter_loop (error_recovery (siglongjmp ?en s1))"
  have s2: "ShutdownRequestPending ?s2" "\<not> ConfigReloadPending ?s2"
    "\<not> ProcSignalBarrierPending ?s2"
    and tr2: "trace ?s2 = trace started @ [E_ResetLatch, E_ereport_LOG 0, E_WaitLatch 1000,
      E_EmitErrorReport, E_LWLockReleaseAll, E_ConditionVariableCancelSleep,
      E_pgstat_report_wait_end, E_AbortBufferIO, E_UnlockBuffers,
      E_ReleaseAuxProcessResources False, E_AtEOXact_Buffers False, E_AtEOXact_SMgr,
      E_AtEOXact_Files False, E_AtEOXact_HashTables False, E_MemoryContextSwitchTo,
      E_FlushErrorState, E_MemoryContextResetAndDeleteChildren,
      E_pg_usleep 1000000, E_smgrcloseall,
      E_PG_SETMASK_UnBlockSig, E_advertise_latch 100]"
    using s1 by (simp_all add: recovery_keeps recovery_frame tr1)
  from loop_iteration_shutdown [of ?s2 quiet] s2 obtain s3
    where ex: "loop_iteration quiet ?s2 = Exited 0 s3"
      and tr3: "trace s3 = trace ?s2 @ [E_ResetLatch, E_proc_exit 0]"
    by auto
  have run: "main_loop [?en, quiet] started = Exited 0 s3"
    using it ex by simp
  have "new_events started s3 =
     [E_ResetLatch, E_ereport_LOG 0, E_WaitLatch 1000,
      E_EmitErrorReport, E_LWLockReleaseAll, E_ConditionVariableCancelSleep,
      E_pgstat_report_wait_end, E_AbortBufferIO, E_UnlockBuffers,
      E_ReleaseAuxProcessResources False, E_AtEOXact_Buffers False, E_AtEOXact_SMgr,
      E_AtEOXact_Files False, E_AtEOXact_HashTables False, E_MemoryContextSwitchTo,
      E_FlushErrorState, E_MemoryContextResetAndDeleteChildren,
      E_pg_usleep 1000000, E_smgrcloseall,
      E_PG_SETMASK_UnBlockSig, E_advertise_latch 100,
      E_ResetLatch, E_proc_exit 0]"
    by (simp add: new_events_def tr3 tr2)
  with it run show ?thesis
    by simp
qed

end
